theory Spec2Isabelle
  imports Complex_Main
begin

section \<open>Data model\<close>

text \<open>
  The application keeps its records in a document store (server side) and in React state
  (client side). The finite JavaScript Numbers that carry money amounts are modelled as
  exact rationals: the properties below are about sums, comparisons and guards, not about
  binary rounding. An ObjectId (server) and a numeric id (client) are natural numbers.
  The \<open>type\<close> and \<open>period\<close> fields stay strings, as the schemas declare them.
\<close>

text \<open>
  A division of Numbers never faults: a zero divisor yields \<open>Infinity\<close>, \<open>-Infinity\<close> or
  \<open>NaN\<close>. The result of a division is therefore a value of \<open>jsnum\<close>, so that a division
  by zero shows in the result. A comparison with \<open>NaN\<close> is false. (The divisors below are
  rationals, which have no negative zero.)
\<close>

datatype jsnum = Num rat | Infinity | NegInfinity | NaN

definition js_div :: "rat \<Rightarrow> rat \<Rightarrow> jsnum" where
  "js_div a b =
     (if b \<noteq> 0 then Num (a / b)
      else if a > 0 then Infinity else if a < 0 then NegInfinity else NaN)"

fun js_times :: "jsnum \<Rightarrow> rat \<Rightarrow> jsnum" where
  "js_times (Num a) r = Num (a * r)"
| "js_times Infinity r = (if r > 0 then Infinity else if r < 0 then NegInfinity else NaN)"
| "js_times NegInfinity r = (if r > 0 then NegInfinity else if r < 0 then Infinity else NaN)"
| "js_times NaN r = NaN"

fun js_ge :: "jsnum \<Rightarrow> rat \<Rightarrow> bool" where
  "js_ge (Num a) r = (a \<ge> r)"
| "js_ge Infinity r = True"
| "js_ge NegInfinity r = False"
| "js_ge NaN r = False"

fun js_gt :: "jsnum \<Rightarrow> rat \<Rightarrow> bool" where
  "js_gt (Num a) r = (a > r)"
| "js_gt Infinity r = True"
| "js_gt NegInfinity r = False"
| "js_gt NaN r = False"

type_synonym oid = nat

text \<open>
  A JavaScript \<open>Date\<close>, read in UTC: calendar year, month (1 to 12), day of the month and
  the milliseconds elapsed since midnight. Two instants compare as their components do,
  lexicographically.
\<close>

record jsdate =
  d_year :: int
  d_month :: nat
  d_day :: nat
  d_ms :: nat

definition date_le :: "jsdate \<Rightarrow> jsdate \<Rightarrow> bool" where
  "date_le a b =
     (d_year a < d_year b \<or>
      (d_year a = d_year b \<and>
        (d_month a < d_month b \<or>
         (d_month a = d_month b \<and>
           (d_day a < d_day b \<or>
            (d_day a = d_day b \<and> d_ms a \<le> d_ms b))))))"

definition full_year :: "int \<Rightarrow> int" where
  \<comment> \<open>The \<open>Date\<close> constructor reads a year from 0 to 99 as a year of the 20th century.\<close>
  "full_year y = (if 0 \<le> y \<and> y \<le> 99 then 1900 + y else y)"

text \<open>
  \<open>new Date(year, monthIndex, day)\<close> is midnight of that day in the time zone of the
  server, and the month index counts from 0. The zone is given by its offset \<open>tz\<close>, in
  minutes east of UTC (0 for UTC, 330 for Asia/Kolkata, -300 for America/New_York in
  winter; the offsets in use lie between -720 and 840). East of UTC the local midnight
  is an instant of the day before in UTC, west of UTC an instant of the same day.
\<close>

definition is_leap :: "int \<Rightarrow> bool" where
  "is_leap y = (y mod 4 = 0 \<and> (y mod 100 \<noteq> 0 \<or> y mod 400 = 0))"

definition days_in_month :: "int \<Rightarrow> nat \<Rightarrow> nat" where
  "days_in_month y m =
     (if m = 2 then (if is_leap y then 29 else 28)
      else if m \<in> set [4, 6, 9, 11] then 30 else 31)"

definition new_Date :: "int \<Rightarrow> int \<Rightarrow> nat \<Rightarrow> nat \<Rightarrow> jsdate" where
  "new_Date tz y mi d =
     (if tz \<le> 0
      then \<lparr>d_year = full_year y, d_month = Suc mi, d_day = d, d_ms = nat (- tz) * 60000\<rparr>
      else if d > 1
      then \<lparr>d_year = full_year y, d_month = Suc mi, d_day = d - 1,
            d_ms = (1440 - nat tz) * 60000\<rparr>
      else if mi > 0
      then \<lparr>d_year = full_year y, d_month = mi, d_day = days_in_month (full_year y) mi,
            d_ms = (1440 - nat tz) * 60000\<rparr>
      else \<lparr>d_year = full_year y - 1, d_month = 12, d_day = 31,
            d_ms = (1440 - nat tz) * 60000\<rparr>)"

subsection \<open>Server-side documents (Mongoose schemas)\<close>

record transaction =
  t_id :: oid
  t_user :: oid
  t_type :: string
  t_amount :: rat
  t_description :: string
  t_category :: oid
  t_date :: jsdate

record category =
  c_id :: oid
  c_user :: oid
  c_name :: string
  c_type :: string
  c_color :: string
  c_isActive :: bool

record budget =
  b_id :: oid
  b_user :: oid
  b_category :: oid
  b_amount :: rat
  b_period :: string
  b_startDate :: jsdate
  b_endDate :: jsdate
  b_spent :: rat
  b_warning :: rat
  b_critical :: rat
  b_isActive :: bool
  b_notes :: string

subsection \<open>Client-side objects (React state of the dashboard)\<close>

record fe_transaction =
  ft_id :: nat
  ft_type :: string
  ft_amount :: rat
  ft_categoryId :: nat
  ft_description :: string

record fe_category =
  fc_id :: nat
  fc_name :: string
  fc_type :: string
  fc_color :: string

record fe_budget =
  fb_id :: nat
  fb_categoryId :: nat
  fb_amount :: rat
  fb_period :: string

section \<open>Budget model: the derived fields\<close>

text \<open>The three virtuals of \<open>budgetSchema\<close>: \<open>remaining\<close>, \<open>percentageUsed\<close>, \<open>status\<close>.\<close>

definition remaining :: "budget \<Rightarrow> rat" where
  "remaining b = max 0 (b_amount b - b_spent b)"

definition percentageUsed :: "budget \<Rightarrow> jsnum" where
  "percentageUsed b =
     (if b_amount b > 0 then js_times (js_div (b_spent b) (b_amount b)) 100 else Num 0)"

definition status :: "budget \<Rightarrow> string" where
  "status b =
     (let percentage = percentageUsed b in
      if js_ge percentage 100 then ''exceeded''
      else if js_ge percentage (b_critical b) then ''critical''
      else if js_ge percentage (b_warning b) then ''warning''
      else ''good'')"

section \<open>Dashboard: the budget cards\<close>

text \<open>
  \<open>Dashboard.budgetStatus\<close> maps every client-side budget to a card. Its inputs are the
  React values it is memoised on: the budgets, the transactions of the selected month
  (\<open>currentMonth\<close>) and the categories. \<open>x?.name || d\<close> takes \<open>d\<close> when nothing was found
  or the string is empty.
\<close>

record budget_card =
  bc_budget :: fe_budget
  bc_spent :: rat
  bc_remaining :: rat
  bc_percentage :: jsnum
  bc_categoryName :: string
  bc_categoryColor :: string
  bc_status :: string

definition or_default :: "string option \<Rightarrow> string \<Rightarrow> string" where
  "or_default v d = (case v of None \<Rightarrow> d | Some s \<Rightarrow> if s = [] then d else s)"

definition spent_of :: "fe_transaction list \<Rightarrow> fe_budget \<Rightarrow> rat" where
  "spent_of currentMonth budget =
     foldl (\<lambda>sum t. sum + ft_amount t) 0
       (filter (\<lambda>t. ft_type t = ''expense'' \<and> ft_categoryId t = fb_categoryId budget)
          currentMonth)"

definition budget_card_of ::
  "fe_transaction list \<Rightarrow> fe_category list \<Rightarrow> fe_budget \<Rightarrow> budget_card" where
  "budget_card_of currentMonth categories budget =
     (let spent = spent_of currentMonth budget;
          category = find (\<lambda>c. fc_id c = fb_categoryId budget) categories;
          percentage = (if fb_amount budget > 0
                        then js_times (js_div spent (fb_amount budget)) 100 else Num 0)
      in \<lparr>bc_budget = budget,
          bc_spent = spent,
          bc_remaining = fb_amount budget - spent,
          bc_percentage = percentage,
          bc_categoryName = or_default (map_option fc_name category) ''Unknown'',
          bc_categoryColor = or_default (map_option fc_color category) ''#64748b'',
          bc_status = (if js_gt percentage 100 then ''over''
                       else if js_gt percentage 80 then ''warning'' else ''good'')\<rparr>)"

definition budgetStatus ::
  "fe_budget list \<Rightarrow> fe_transaction list \<Rightarrow> fe_category list \<Rightarrow> budget_card list" where
  "budgetStatus budgets currentMonth categories =
     map (budget_card_of currentMonth categories) budgets"

section \<open>Dashboard: the category chart\<close>

text \<open>
  \<open>Dashboard.categoryData\<close> adds the expenses of the month up in an object keyed by the
  category name (an association list in insertion order here), with the name
  \<open>Uncategorized\<close> when the category id resolves to nothing, and then attaches a colour.
\<close>

record chart_slice =
  cs_name :: string
  cs_value :: rat
  cs_color :: string

fun obj_add :: "string \<Rightarrow> rat \<Rightarrow> (string \<times> rat) list \<Rightarrow> (string \<times> rat) list" where
  "obj_add name amount [] = [(name, 0 + amount)]"
| "obj_add name amount ((k, v) # acc) =
     (if k = name then (k, v + amount) # acc else (k, v) # obj_add name amount acc)"

definition expensesByCategory ::
  "fe_transaction list \<Rightarrow> fe_category list \<Rightarrow> (string \<times> rat) list" where
  "expensesByCategory currentMonth categories =
     foldl (\<lambda>acc t.
         let category = find (\<lambda>c. fc_id c = ft_categoryId t) categories;
             categoryName = or_default (map_option fc_name category) ''Uncategorized''
         in obj_add categoryName (ft_amount t) acc)
       [] (filter (\<lambda>t. ft_type t = ''expense'') currentMonth)"

definition categoryData :: "fe_transaction list \<Rightarrow> fe_category list \<Rightarrow> chart_slice list" where
  "categoryData currentMonth categories =
     map (\<lambda>(name, v).
         let category = find (\<lambda>c. fc_name c = name) categories
         in \<lparr>cs_name = name, cs_value = v,
             cs_color = or_default (map_option fc_color category) ''#64748b''\<rparr>)
       (expensesByCategory currentMonth categories)"

section \<open>Report routes: the aggregation pipelines\<close>

text \<open>
  A \<open>$group\<close> stage keeps one accumulator per distinct key: the first document of a key
  creates the accumulator, every later one updates it. The groups are kept in order of
  first appearance; the store promises no order, and every consumer below either sorts
  or looks a group up by its key. The \<open>$match\<close> stages compare the owner of a document
  with the id of the requester.
\<close>

fun group_add ::
  "('d \<Rightarrow> 'k) \<Rightarrow> ('d \<Rightarrow> 'a) \<Rightarrow> ('d \<Rightarrow> 'a \<Rightarrow> 'a) \<Rightarrow> 'd \<Rightarrow> ('k \<times> 'a) list \<Rightarrow> ('k \<times> 'a) list"
  where
  "group_add key init step d [] = [(key d, init d)]"
| "group_add key init step d ((k, a) # gs) =
     (if k = key d then (k, step d a) # gs else (k, a) # group_add key init step d gs)"

definition group_stage ::
  "('d \<Rightarrow> 'k) \<Rightarrow> ('d \<Rightarrow> 'a) \<Rightarrow> ('d \<Rightarrow> 'a \<Rightarrow> 'a) \<Rightarrow> 'd list \<Rightarrow> ('k \<times> 'a) list" where
  "group_stage key init step docs = foldl (\<lambda>gs d. group_add key init step d gs) [] docs"

definition match_date :: "jsdate option \<Rightarrow> jsdate option \<Rightarrow> jsdate \<Rightarrow> bool" where
  \<comment> \<open>\<open>filter.date\<close> with \<open>$gte\<close> and \<open>$lte\<close>, each present only when the query gives it.\<close>
  "match_date startDate endDate d =
     ((case startDate of None \<Rightarrow> True | Some s \<Rightarrow> date_le s d) \<and>
      (case endDate of None \<Rightarrow> True | Some e \<Rightarrow> date_le d e))"

subsection \<open>GET /api/reports/summary\<close>

record type_stats =
  s_total :: rat
  s_count :: nat
  s_avgAmount :: rat

record summary_result =
  r_income :: type_stats
  r_expense :: type_stats
  r_balance :: rat
  r_totalTransactions :: nat

text \<open>The accumulators \<open>$sum: '$amount'\<close> and \<open>$sum: 1\<close>; \<open>$avg\<close> is their quotient.\<close>

definition sum_count_init :: "transaction \<Rightarrow> rat \<times> nat" where
  "sum_count_init t = (0 + t_amount t, Suc 0)"

definition sum_count_step :: "transaction \<Rightarrow> rat \<times> nat \<Rightarrow> rat \<times> nat" where
  "sum_count_step t a = (fst a + t_amount t, Suc (snd a))"

definition stats_of :: "rat \<times> nat \<Rightarrow> type_stats" where
  "stats_of a = \<lparr>s_total = fst a, s_count = snd a, s_avgAmount = fst a / of_nat (snd a)\<rparr>"

definition zero_stats :: type_stats where
  "zero_stats = \<lparr>s_total = 0, s_count = 0, s_avgAmount = 0\<rparr>"

definition summary_groups ::
  "oid \<Rightarrow> jsdate option \<Rightarrow> jsdate option \<Rightarrow> transaction list \<Rightarrow> (string \<times> type_stats) list"
  where
  "summary_groups user startDate endDate docs =
     map (\<lambda>(k, a). (k, stats_of a))
       (group_stage t_type sum_count_init sum_count_step
          (filter (\<lambda>t. t_user t = user \<and> match_date startDate endDate (t_date t)) docs))"

definition summary ::
  "oid \<Rightarrow> jsdate option \<Rightarrow> jsdate option \<Rightarrow> transaction list \<Rightarrow> summary_result" where
  "summary user startDate endDate docs =
     (let result =
            foldl (\<lambda>res (k, st).
                if k = ''income'' then (st, snd res)
                else if k = ''expense'' then (fst res, st)
                else res)
              (zero_stats, zero_stats) (summary_groups user startDate endDate docs)
      in \<lparr>r_income = fst result, r_expense = snd result,
          r_balance = s_total (fst result) - s_total (snd result),
          r_totalTransactions = s_count (fst result) + s_count (snd result)\<rparr>)"

subsection \<open>GET /api/reports/category-breakdown\<close>

record breakdown_row =
  br_id :: oid
  br_name :: string
  br_color :: string
  br_total :: rat
  br_count :: nat
  br_avgAmount :: rat

record cat_acc =
  a_name :: string
  a_color :: string
  a_total :: rat
  a_count :: nat

definition lookup_categoryInfo :: "category list \<Rightarrow> transaction \<Rightarrow> category list" where
  \<comment> \<open>\<open>$lookup\<close>: the array of the categories whose \<open>_id\<close> is the transaction's category.\<close>
  "lookup_categoryInfo categories t = filter (\<lambda>c. c_id c = t_category t) categories"

definition unwind_categoryInfo ::
  "category list \<Rightarrow> transaction list \<Rightarrow> (transaction \<times> category) list" where
  \<comment> \<open>\<open>$unwind\<close>: one document per element of the array, none when the array is empty.\<close>
  "unwind_categoryInfo categories docs =
     concat (map (\<lambda>t. map (\<lambda>c. (t, c)) (lookup_categoryInfo categories t)) docs)"

definition cat_init :: "transaction \<times> category \<Rightarrow> cat_acc" where
  "cat_init d =
     \<lparr>a_name = c_name (snd d), a_color = c_color (snd d),
      a_total = 0 + t_amount (fst d), a_count = Suc 0\<rparr>"

definition cat_step :: "transaction \<times> category \<Rightarrow> cat_acc \<Rightarrow> cat_acc" where
  "cat_step d a = a\<lparr>a_total := a_total a + t_amount (fst d), a_count := Suc (a_count a)\<rparr>"

definition row_of :: "oid \<times> cat_acc \<Rightarrow> breakdown_row" where
  "row_of g =
     \<lparr>br_id = fst g, br_name = a_name (snd g), br_color = a_color (snd g),
      br_total = a_total (snd g), br_count = a_count (snd g),
      br_avgAmount = a_total (snd g) / of_nat (a_count (snd g))\<rparr>"

definition category_breakdown ::
  "oid \<Rightarrow> string \<Rightarrow> jsdate option \<Rightarrow> jsdate option \<Rightarrow> category list \<Rightarrow> transaction list
     \<Rightarrow> breakdown_row list" where
  "category_breakdown user type startDate endDate categories docs =
     sort_key (\<lambda>r. - br_total r)
       (map row_of
          (group_stage (\<lambda>d. t_category (fst d)) cat_init cat_step
             (unwind_categoryInfo categories
                (filter (\<lambda>t. t_user t = user \<and> t_type t = type \<and>
                             match_date startDate endDate (t_date t)) docs))))"

subsection \<open>GET /api/reports/monthly-trends\<close>

record month_acc =
  ma_income :: rat
  ma_expense :: rat
  ma_incomeCount :: nat
  ma_expenseCount :: nat

record trend_entry =
  mt_month :: string
  mt_income :: rat
  mt_expense :: rat
  mt_balance :: rat
  mt_incomeCount :: nat
  mt_expenseCount :: nat

definition month_step :: "(nat \<times> string) \<times> (rat \<times> nat) \<Rightarrow> month_acc \<Rightarrow> month_acc" where
  \<comment> \<open>The four \<open>$sum\<close> of \<open>$cond\<close> accumulators of the second \<open>$group\<close>.\<close>
  "month_step g a =
     \<lparr>ma_income = ma_income a + (if snd (fst g) = ''income'' then fst (snd g) else 0),
      ma_expense = ma_expense a + (if snd (fst g) = ''expense'' then fst (snd g) else 0),
      ma_incomeCount = ma_incomeCount a + (if snd (fst g) = ''income'' then snd (snd g) else 0),
      ma_expenseCount = ma_expenseCount a + (if snd (fst g) = ''expense'' then snd (snd g) else 0)\<rparr>"

definition month_init :: "(nat \<times> string) \<times> (rat \<times> nat) \<Rightarrow> month_acc" where
  "month_init g =
     month_step g \<lparr>ma_income = 0, ma_expense = 0, ma_incomeCount = 0, ma_expenseCount = 0\<rparr>"

definition trends ::
  "int \<Rightarrow> oid \<Rightarrow> int \<Rightarrow> transaction list \<Rightarrow> (nat \<times> month_acc) list" where
  \<comment> \<open>\<open>tz\<close> is the zone of the server; \<open>$month\<close> reads the month of a date in UTC.\<close>
  "trends tz user year docs =
     (let startDate = new_Date tz year 0 1;
          endDate = new_Date tz year 11 31
      in sort_key fst
           (group_stage (\<lambda>g. fst (fst g)) month_init month_step
              (group_stage (\<lambda>t. (d_month (t_date t), t_type t)) sum_count_init sum_count_step
                 (filter (\<lambda>t. t_user t = user \<and> date_le startDate (t_date t) \<and>
                              date_le (t_date t) endDate) docs))))"

definition monthNames :: "string list" where
  "monthNames =
     [''Jan'', ''Feb'', ''Mar'', ''Apr'', ''May'', ''Jun'',
      ''Jul'', ''Aug'', ''Sep'', ''Oct'', ''Nov'', ''Dec'']"

definition or0 :: "'a::zero option \<Rightarrow> 'a" where
  \<comment> \<open>\<open>monthData?.field || 0\<close>\<close>
  "or0 v = (case v of None \<Rightarrow> 0 | Some x \<Rightarrow> if x = 0 then 0 else x)"

definition trend_entry_of :: "(nat \<times> month_acc) list \<Rightarrow> string \<times> nat \<Rightarrow> trend_entry" where
  "trend_entry_of ts mi =
     (let monthData = find (\<lambda>t. fst t = snd mi + 1) ts
      in \<lparr>mt_month = fst mi,
          mt_income = or0 (map_option (ma_income \<circ> snd) monthData),
          mt_expense = or0 (map_option (ma_expense \<circ> snd) monthData),
          mt_balance = or0 (map_option (ma_income \<circ> snd) monthData)
                        - or0 (map_option (ma_expense \<circ> snd) monthData),
          mt_incomeCount = or0 (map_option (ma_incomeCount \<circ> snd) monthData),
          mt_expenseCount = or0 (map_option (ma_expenseCount \<circ> snd) monthData)\<rparr>)"

definition monthly_trends ::
  "int \<Rightarrow> oid \<Rightarrow> int \<Rightarrow> transaction list \<Rightarrow> trend_entry list" where
  "monthly_trends tz user year docs =
     map (trend_entry_of (trends tz user year docs)) (zip monthNames [0..<length monthNames])"

section \<open>Transaction routes\<close>

text \<open>
  A handler answers with an HTTP status and a message and leaves the collection it was
  given, changed or not. In the transaction routes the format checks of the validators
  (\<open>isMongoId\<close>, \<open>isISO8601\<close>, the syntax of \<open>isFloat\<close>) are carried by the types of
  the request records; the range and membership checks are branches of the handlers. A request field that the body may omit
  is an option. The documents carry the fields that the properties below read; tags,
  notes, payment method and the timestamps that the library maintains are left out.
\<close>

type_synonym reply = "nat \<times> string"

definition is_space :: "char \<Rightarrow> bool" where
  "is_space ch = (ch \<in> set [CHR '' '', CHR 0x09, CHR 0x0A, CHR 0x0D, CHR 0x0B, CHR 0x0C])"

definition trim :: "string \<Rightarrow> string" where
  "trim s = rev (dropWhile is_space (rev (dropWhile is_space s)))"

definition replace_first :: "('a \<Rightarrow> bool) \<Rightarrow> 'a \<Rightarrow> 'a list \<Rightarrow> 'a list" where
  \<comment> \<open>Saving the document that \<open>findOne\<close> returned: the first match is written back.\<close>
  "replace_first P y xs = takeWhile (\<lambda>x. \<not> P x) xs @ (case dropWhile (\<lambda>x. \<not> P x) xs of
       [] \<Rightarrow> [] | _ # rest \<Rightarrow> y # rest)"

record create_transaction_body =
  ct_type :: string
  ct_amount :: rat
  ct_description :: string
  ct_category :: oid
  ct_date :: "jsdate option"

definition create_transaction ::
  "jsdate \<Rightarrow> oid \<Rightarrow> oid \<Rightarrow> category list \<Rightarrow> transaction list \<Rightarrow> create_transaction_body
     \<Rightarrow> reply \<times> transaction list" where
  \<comment> \<open>\<open>now\<close> is the clock, \<open>new_id\<close> the fresh ObjectId, \<open>user\<close> the requester.\<close>
  "create_transaction now new_id user categories transactions body =
     (if \<not> (ct_type body \<in> set [''income'', ''expense''] \<and>
             ct_amount body \<ge> 1 / 100 \<and>
             1 \<le> length (trim (ct_description body)) \<and>
             length (trim (ct_description body)) \<le> 200)
      then ((400, ''Validation failed''), transactions)
      else
        (case find (\<lambda>c. c_id c = ct_category body \<and> c_user c = user \<and>
                         c_type c = ct_type body \<and> c_isActive c) categories of
           None \<Rightarrow> ((400, ''Invalid category for this transaction type''), transactions)
         | Some categoryDoc \<Rightarrow>
             ((201, ''Transaction created successfully''),
              transactions @
                [\<lparr>t_id = new_id, t_user = user, t_type = ct_type body,
                  t_amount = ct_amount body, t_description = trim (ct_description body),
                  t_category = ct_category body,
                  t_date = (case ct_date body of Some d \<Rightarrow> d | None \<Rightarrow> now)\<rparr>])))"

record update_transaction_body =
  ut_user :: "oid option"
  ut_type :: "string option"
  ut_amount :: "rat option"
  ut_description :: "string option"
  ut_category :: "oid option"
  ut_date :: "jsdate option"

definition assign_transaction :: "update_transaction_body \<Rightarrow> transaction \<Rightarrow> transaction" where
  \<comment> \<open>The loop over \<open>Object.keys(updates)\<close>: every key that is present is assigned.\<close>
  "assign_transaction updates t =
     t\<lparr>t_user := (case ut_user updates of Some v \<Rightarrow> v | None \<Rightarrow> t_user t),
       t_type := (case ut_type updates of Some v \<Rightarrow> v | None \<Rightarrow> t_type t),
       t_amount := (case ut_amount updates of Some v \<Rightarrow> v | None \<Rightarrow> t_amount t),
       t_description :=
         (case ut_description updates of Some v \<Rightarrow> trim v | None \<Rightarrow> t_description t),
       t_category := (case ut_category updates of Some v \<Rightarrow> v | None \<Rightarrow> t_category t),
       t_date := (case ut_date updates of Some v \<Rightarrow> v | None \<Rightarrow> t_date t)\<rparr>"

definition update_transaction ::
  "oid \<Rightarrow> oid \<Rightarrow> category list \<Rightarrow> transaction list \<Rightarrow> update_transaction_body
     \<Rightarrow> reply \<times> transaction list" where
  "update_transaction user tid categories transactions updates =
     (if \<not> ((case ut_type updates of None \<Rightarrow> True
                | Some v \<Rightarrow> v \<in> set [''income'', ''expense'']) \<and>
             (case ut_amount updates of None \<Rightarrow> True | Some v \<Rightarrow> v \<ge> 1 / 100) \<and>
             (case ut_description updates of None \<Rightarrow> True
                | Some v \<Rightarrow> 1 \<le> length (trim v) \<and> length (trim v) \<le> 200))
      then ((400, ''Validation failed''), transactions)
      else
        (case find (\<lambda>t. t_id t = tid \<and> t_user t = user) transactions of
           None \<Rightarrow> ((404, ''Transaction not found''), transactions)
         | Some t \<Rightarrow>
             if (case ut_category updates of
                   None \<Rightarrow> False
                 | Some cat \<Rightarrow>
                     find (\<lambda>c. c_id c = cat \<and> c_user c = user \<and>
                                c_type c = (case ut_type updates of
                                              None \<Rightarrow> t_type t
                                            | Some v \<Rightarrow> if v = [] then t_type t else v) \<and>
                                c_isActive c) categories = None)
             then ((400, ''Invalid category for this transaction type''), transactions)
             else
               ((200, ''Transaction updated successfully''),
                replace_first (\<lambda>t. t_id t = tid \<and> t_user t = user)
                  (assign_transaction updates t) transactions)))"

definition category_matches :: "category list \<Rightarrow> transaction \<Rightarrow> bool" where
  \<comment> \<open>The invariant of the data model: the category a transaction refers to belongs to
      the same user and has the transaction's type.\<close>
  "category_matches categories t =
     list_ex (\<lambda>c. c_id c = t_category t \<and> c_user c = t_user t \<and> c_type c = t_type t)
       categories"

section \<open>Category routes\<close>

definition delete_category ::
  "oid \<Rightarrow> oid \<Rightarrow> category list \<Rightarrow> transaction list \<Rightarrow> reply \<times> category list" where
  \<comment> \<open>DELETE /api/categories/:id: a category that transactions of the requester refer
      to is deactivated, any other is removed.\<close>
  "delete_category user cid categories transactions =
     (case find (\<lambda>c. c_id c = cid \<and> c_user c = user) categories of
        None \<Rightarrow> ((404, ''Category not found''), categories)
      | Some category \<Rightarrow>
          if length (filter (\<lambda>t. t_user t = user \<and> t_category t = c_id category)
                       transactions) > 0
          then ((200, ''Category deactivated successfully (has associated transactions)''),
                replace_first (\<lambda>c. c_id c = cid \<and> c_user c = user)
                  (category\<lparr>c_isActive := False\<rparr>) categories)
          else ((200, ''Category deleted successfully''),
                filter (\<lambda>c. c_id c \<noteq> c_id category) categories))"

section \<open>Budget routes\<close>

text \<open>
  In the route that creates a budget every validator is a branch: a field of the body
  that is missing or fails the format check of its validator (\<open>isMongoId\<close> for the
  category, \<open>isFloat\<close> for the amount, \<open>isISO8601\<close> for the two dates) is \<open>None\<close>.
\<close>

record create_budget_body =
  cb_category :: "oid option"
  cb_amount :: "rat option"
  cb_period :: string
  cb_startDate :: "jsdate option"
  cb_endDate :: "jsdate option"
  cb_alertThresholds :: "(rat \<times> rat) option"
  cb_notes :: "string option"

definition overlaps :: "oid \<Rightarrow> oid \<Rightarrow> string \<Rightarrow> jsdate \<Rightarrow> jsdate \<Rightarrow> budget \<Rightarrow> bool" where
  \<comment> \<open>The query of \<open>Budget.findOne\<close> before a budget is created.\<close>
  "overlaps user category period startDate endDate b =
     (b_user b = user \<and> b_category b = category \<and> b_period b = period \<and>
      b_isActive b \<and>
      date_le (b_startDate b) endDate \<and> date_le startDate (b_endDate b))"

definition new_budget ::
  "oid \<Rightarrow> oid \<Rightarrow> oid \<Rightarrow> rat \<Rightarrow> jsdate \<Rightarrow> jsdate \<Rightarrow> create_budget_body \<Rightarrow> budget" where
  "new_budget new_id user category amount startDate endDate body =
     \<lparr>b_id = new_id, b_user = user, b_category = category,
      b_amount = amount, b_period = cb_period body,
      b_startDate = startDate, b_endDate = endDate,
      b_spent = 0,
      b_warning = fst (case cb_alertThresholds body of Some th \<Rightarrow> th | None \<Rightarrow> (80, 95)),
      b_critical = snd (case cb_alertThresholds body of Some th \<Rightarrow> th | None \<Rightarrow> (80, 95)),
      b_isActive = True,
      b_notes = (case cb_notes body of Some n \<Rightarrow> n | None \<Rightarrow> [])\<rparr>"

definition budget_schema_ok :: "budget \<Rightarrow> bool" where
  \<comment> \<open>The validators of \<open>budgetSchema\<close> that \<open>save\<close> runs; a failure is thrown and caught
      by the handler, which answers 500.\<close>
  "budget_schema_ok b =
     (b_amount b \<ge> 1 / 100 \<and> b_period b \<in> set [''weekly'', ''monthly'', ''yearly''] \<and>
      b_spent b \<ge> 0 \<and>
      0 \<le> b_warning b \<and> b_warning b \<le> 100 \<and> 0 \<le> b_critical b \<and> b_critical b \<le> 100 \<and>
      length (b_notes b) \<le> 300)"

definition create_budget ::
  "oid \<Rightarrow> oid \<Rightarrow> category list \<Rightarrow> budget list \<Rightarrow> create_budget_body \<Rightarrow> reply \<times> budget list"
  where
  "create_budget new_id user categories budgets body =
     (case cb_category body of
        None \<Rightarrow> ((400, ''Validation failed''), budgets)
      | Some category \<Rightarrow>
     (case cb_amount body of
        None \<Rightarrow> ((400, ''Validation failed''), budgets)
      | Some amount \<Rightarrow>
     (case cb_startDate body of
        None \<Rightarrow> ((400, ''Validation failed''), budgets)
      | Some startDate \<Rightarrow>
     (case cb_endDate body of
        None \<Rightarrow> ((400, ''Validation failed''), budgets)
      | Some endDate \<Rightarrow>
          if \<not> (amount \<ge> 1 / 100 \<and>
                 cb_period body \<in> set [''weekly'', ''monthly'', ''yearly''])
          then ((400, ''Validation failed''), budgets)
          else
            (case find (\<lambda>c. c_id c = category \<and> c_user c = user \<and>
                             c_type c = ''expense'' \<and> c_isActive c) categories of
               None \<Rightarrow> ((400, ''Invalid expense category''), budgets)
             | Some categoryDoc \<Rightarrow>
                 (case find (overlaps user category (cb_period body) startDate endDate)
                         budgets of
                    Some existingBudget \<Rightarrow>
                      ((400, ''Budget already exists for this category and period''),
                       budgets)
                  | None \<Rightarrow>
                      if budget_schema_ok
                           (new_budget new_id user category amount startDate endDate body)
                      then ((201, ''Budget created successfully''),
                            budgets @
                              [new_budget new_id user category amount startDate endDate
                                 body])
                      else ((500, ''Server error''), budgets)))))))"

text \<open>
  The update handler assigns by key, so here the stored budget is the keyed object it is
  in the source: a map from field names to values. A body entry whose value is
  \<open>undefined\<close> is \<open>None\<close>. The validator of \<open>amount\<close> and the schema validation that
  \<open>save\<close> runs belong to the libraries and are parameters; \<open>save\<close> writes the document
  back as the handler assigned it.
\<close>

type_synonym 'v document = "string \<rightharpoonup> 'v"

definition assign_budget :: "(string \<times> 'v option) list \<Rightarrow> 'v document \<Rightarrow> 'v document" where
  "assign_budget updates budget =
     foldl (\<lambda>doc (key, v).
         case v of
           None \<Rightarrow> doc
         | Some x \<Rightarrow> if key \<noteq> ''category'' \<and> key \<noteq> ''period'' then doc(key \<mapsto> x) else doc)
       budget updates"

definition update_budget ::
  "('v \<Rightarrow> bool) \<Rightarrow> ('v document \<Rightarrow> bool) \<Rightarrow> 'v \<Rightarrow> 'v \<Rightarrow> 'v document list
     \<Rightarrow> (string \<times> 'v option) list \<Rightarrow> reply \<times> 'v document list" where
  "update_budget amount_ok save_ok user bid budgets updates =
     (if \<not> (case map_of updates ''amount'' of
               None \<Rightarrow> True | Some None \<Rightarrow> True | Some (Some v) \<Rightarrow> amount_ok v)
      then ((400, ''Validation failed''), budgets)
      else
        (case find (\<lambda>d. d ''_id'' = Some bid \<and> d ''user'' = Some user) budgets of
           None \<Rightarrow> ((404, ''Budget not found''), budgets)
         | Some budget \<Rightarrow>
             if save_ok (assign_budget updates budget)
             then ((200, ''Budget updated successfully''),
                   replace_first (\<lambda>d. d ''_id'' = Some bid \<and> d ''user'' = Some user)
                     (assign_budget updates budget) budgets)
             else ((500, ''Server error''), budgets)))"

section \<open>Sample data\<close>

text \<open>
  The records that the closed statements below are evaluated on: the worked example of
  the specification (a budget of 120 on a category that received expenses of 100 and 50),
  a budget spent to exactly its amount, and small server-side collections.
\<close>

definition budget_a :: fe_budget where
  "budget_a = \<lparr>fb_id = 2, fb_categoryId = 3, fb_amount = 120, fb_period = ''monthly''\<rparr>"

definition budget_full :: fe_budget where
  "budget_full = \<lparr>fb_id = 4, fb_categoryId = 3, fb_amount = 150, fb_period = ''monthly''\<rparr>"

definition march_transactions :: "fe_transaction list" where
  "march_transactions =
     [\<lparr>ft_id = 2, ft_type = ''expense'', ft_amount = 100, ft_categoryId = 3,
       ft_description = ''rent''\<rparr>,
      \<lparr>ft_id = 3, ft_type = ''expense'', ft_amount = 50, ft_categoryId = 3,
       ft_description = ''repairs''\<rparr>,
      \<lparr>ft_id = 4, ft_type = ''income'', ft_amount = 500, ft_categoryId = 8,
       ft_description = ''salary''\<rparr>]"

definition stored_budget :: "rat \<Rightarrow> rat \<Rightarrow> rat \<Rightarrow> rat \<Rightarrow> budget" where
  "stored_budget amount spent warning critical =
     \<lparr>b_id = 10, b_user = 7, b_category = 3, b_amount = amount, b_period = ''monthly'',
      b_startDate = \<lparr>d_year = 2024, d_month = 3, d_day = 1, d_ms = 0\<rparr>,
      b_endDate = \<lparr>d_year = 2024, d_month = 3, d_day = 31, d_ms = 0\<rparr>,
      b_spent = spent, b_warning = warning, b_critical = critical,
      b_isActive = True, b_notes = []\<rparr>"

definition cat_food :: category where
  "cat_food =
     \<lparr>c_id = 2, c_user = 7, c_name = ''Food'', c_type = ''expense'', c_color = ''#ef4444'',
      c_isActive = False\<rparr>"

definition cat_groceries :: category where
  "cat_groceries =
     \<lparr>c_id = 3, c_user = 7, c_name = ''Groceries'', c_type = ''expense'',
      c_color = ''#f97316'', c_isActive = True\<rparr>"

definition cat_salary :: category where
  "cat_salary =
     \<lparr>c_id = 4, c_user = 7, c_name = ''Salary'', c_type = ''income'', c_color = ''#10b981'',
      c_isActive = True\<rparr>"

definition tx_food :: transaction where
  "tx_food =
     \<lparr>t_id = 20, t_user = 7, t_type = ''expense'', t_amount = 20, t_description = ''lunch'',
      t_category = 2, t_date = \<lparr>d_year = 2024, d_month = 3, d_day = 1, d_ms = 0\<rparr>\<rparr>"

definition tx_orphan :: transaction where
  "tx_orphan =
     \<lparr>t_id = 21, t_user = 7, t_type = ''expense'', t_amount = 50, t_description = ''taxi'',
      t_category = 9, t_date = \<lparr>d_year = 2024, d_month = 3, d_day = 2, d_ms = 0\<rparr>\<rparr>"

definition tx_groceries :: transaction where
  "tx_groceries =
     \<lparr>t_id = 22, t_user = 7, t_type = ''expense'', t_amount = 35, t_description = ''market'',
      t_category = 3, t_date = \<lparr>d_year = 2024, d_month = 3, d_day = 5, d_ms = 0\<rparr>\<rparr>"

definition tx_dec30 :: transaction where
  "tx_dec30 =
     \<lparr>t_id = 23, t_user = 7, t_type = ''expense'', t_amount = 50, t_description = ''gifts'',
      t_category = 3,
      t_date = \<lparr>d_year = 2024, d_month = 12, d_day = 30, d_ms = 64800000\<rparr>\<rparr>"

definition tx_dec31 :: transaction where
  "tx_dec31 =
     \<lparr>t_id = 24, t_user = 7, t_type = ''expense'', t_amount = 50, t_description = ''party'',
      t_category = 3,
      t_date = \<lparr>d_year = 2024, d_month = 12, d_day = 31, d_ms = 64800000\<rparr>\<rparr>"

definition only_type :: update_transaction_body where
  "only_type =
     \<lparr>ut_user = None, ut_type = Some ''income'', ut_amount = None, ut_description = None,
      ut_category = None, ut_date = None\<rparr>"

definition only_user :: update_transaction_body where
  "only_user =
     \<lparr>ut_user = Some 8, ut_type = None, ut_amount = None, ut_description = None,
      ut_category = None, ut_date = None\<rparr>"

definition march_1 :: jsdate where
  "march_1 = \<lparr>d_year = 2024, d_month = 3, d_day = 1, d_ms = 0\<rparr>"

definition march_31 :: jsdate where
  "march_31 = \<lparr>d_year = 2024, d_month = 3, d_day = 31, d_ms = 0\<rparr>"

definition march_body :: create_budget_body where
  "march_body =
     \<lparr>cb_category = Some 3, cb_amount = Some 120, cb_period = ''monthly'',
      cb_startDate = Some march_1, cb_endDate = Some march_31,
      cb_alertThresholds = None, cb_notes = None\<rparr>"

definition salary_body :: create_budget_body where
  "salary_body =
     \<lparr>cb_category = Some 4, cb_amount = Some 120, cb_period = ''monthly'',
      cb_startDate = Some march_1, cb_endDate = Some march_31,
      cb_alertThresholds = None, cb_notes = None\<rparr>"

definition february_budget :: budget where
  "february_budget =
     \<lparr>b_id = 12, b_user = 7, b_category = 3, b_amount = 90, b_period = ''monthly'',
      b_startDate = \<lparr>d_year = 2024, d_month = 2, d_day = 1, d_ms = 0\<rparr>,
      b_endDate = march_1,
      b_spent = 0, b_warning = 80, b_critical = 95, b_isActive = True, b_notes = []\<rparr>"

definition tx_newyear_eve :: transaction where
  "tx_newyear_eve =
     \<lparr>t_id = 25, t_user = 7, t_type = ''expense'', t_amount = 50,
      t_description = ''fireworks'', t_category = 3,
      t_date = \<lparr>d_year = 2023, d_month = 12, d_day = 31, d_ms = 72000000\<rparr>\<rparr>"

definition budget_doc :: "string document" where
  "budget_doc =
     [''_id'' \<mapsto> ''b10'', ''user'' \<mapsto> ''u7'', ''category'' \<mapsto> ''c3'',
      ''period'' \<mapsto> ''monthly'', ''amount'' \<mapsto> ''120'']"

definition budget_patch :: "(string \<times> string option) list" where
  "budget_patch =
     [(''category'', Some ''c4''), (''period'', Some ''yearly''), (''amount'', Some ''150'')]"

definition tot_of :: "(string \<times> rat \<times> nat) list \<Rightarrow> string \<Rightarrow> rat" where
  \<comment> \<open>The \<open>total\<close> of the group with a given key, 0 when there is no such group.\<close>
  "tot_of gs k = (case map_of gs k of None \<Rightarrow> 0 | Some a \<Rightarrow> fst a)"

section \<open>Budget status, remaining amount and percentage\<close>

lemma foldl_add_amounts:
  "foldl (\<lambda>sum t. sum + ft_amount t) a ts = a + sum_list (map ft_amount ts)"
  by (induction ts arbitrary: a) (simp_all add: algebra_simps)

lemma percentageUsed_Num:
  "percentageUsed b = Num (if b_amount b > 0 then b_spent b / b_amount b * 100 else 0)"
  by (simp add: percentageUsed_def js_div_def)

lemma card_percentage_Num:
  "bc_percentage (budget_card_of currentMonth categories budget) =
     Num (if fb_amount budget > 0
          then bc_spent (budget_card_of currentMonth categories budget) / fb_amount budget * 100
          else 0)"
  by (simp add: budget_card_of_def Let_def js_div_def)

lemma card_status:
  "bc_status (budget_card_of currentMonth categories budget) =
     (if js_gt (bc_percentage (budget_card_of currentMonth categories budget)) 100 then ''over''
      else if js_gt (bc_percentage (budget_card_of currentMonth categories budget)) 80
      then ''warning'' else ''good'')"
  by (simp add: budget_card_of_def Let_def)

text \<open>
  Claim C1 says that the budget status is always classified by the chain
  \<open>exceeded\<close> (\<open>\<ge> 100\<close>), \<open>critical\<close>, \<open>warning\<close>, \<open>good\<close> over the budget's own
  thresholds. The dashboard's \<open>budgetStatus\<close> does not: a budget of 150 with expenses of
  100 and 50 stands at exactly 100 percent and its card says \<open>warning\<close>.
\<close>

theorem dashboard_status_at_full_budget:
  "map bc_percentage (budgetStatus [budget_full] march_transactions []) = [Num 100] \<and>
   map bc_status (budgetStatus [budget_full] march_transactions []) = [''warning'']"
  by (simp add: budgetStatus_def budget_card_of_def spent_of_def budget_full_def
      march_transactions_def Let_def js_div_def)

text \<open>
  Claim C1, as amended: the \<open>status\<close> of the Budget model is classified by threshold order,
  the highest threshold winning: \<open>exceeded\<close> exactly when the percentage used is at least
  100, else \<open>critical\<close> from the budget's critical threshold on, else \<open>warning\<close> from its
  warning threshold on, else \<open>good\<close>; in particular a budget at exactly 100 percent is
  \<open>exceeded\<close>, not \<open>critical\<close>, also when its critical threshold is 100. The cards of the
  dashboard follow a rule of their own, with fixed bounds: \<open>over\<close> above 100, \<open>warning\<close>
  above 80, else \<open>good\<close>.
\<close>

theorem budget_status_thresholds:
  "(\<exists>r. percentageUsed b = Num r \<and>
        (status b = ''exceeded'' \<longleftrightarrow> r \<ge> 100) \<and>
        (status b = ''critical'' \<longleftrightarrow> r < 100 \<and> r \<ge> b_critical b) \<and>
        (status b = ''warning'' \<longleftrightarrow> r < 100 \<and> r < b_critical b \<and> r \<ge> b_warning b) \<and>
        (status b = ''good'' \<longleftrightarrow> r < 100 \<and> r < b_critical b \<and> r < b_warning b) \<and>
        (r = 100 \<longrightarrow> status b = ''exceeded'' \<and> status b \<noteq> ''critical'')) \<and>
   (\<exists>q. bc_percentage (budget_card_of currentMonth categories budget) = Num q \<and>
        (bc_status (budget_card_of currentMonth categories budget) = ''over'' \<longleftrightarrow> q > 100) \<and>
        (bc_status (budget_card_of currentMonth categories budget) = ''warning'' \<longleftrightarrow>
           80 < q \<and> q \<le> 100) \<and>
        (bc_status (budget_card_of currentMonth categories budget) = ''good'' \<longleftrightarrow> q \<le> 80))"
proof (intro conjI)
  define r where "r = (if b_amount b > 0 then b_spent b / b_amount b * 100 else 0)"
  have p: "percentageUsed b = Num r"
    by (simp add: r_def percentageUsed_Num)
  have "(status b = ''exceeded'' \<longleftrightarrow> r \<ge> 100) \<and>
        (status b = ''critical'' \<longleftrightarrow> r < 100 \<and> r \<ge> b_critical b) \<and>
        (status b = ''warning'' \<longleftrightarrow> r < 100 \<and> r < b_critical b \<and> r \<ge> b_warning b) \<and>
        (status b = ''good'' \<longleftrightarrow> r < 100 \<and> r < b_critical b \<and> r < b_warning b) \<and>
        (r = 100 \<longrightarrow> status b = ''exceeded'' \<and> status b \<noteq> ''critical'')"
    by (auto simp: status_def Let_def p)
  with p show "\<exists>r. percentageUsed b = Num r \<and>
        (status b = ''exceeded'' \<longleftrightarrow> r \<ge> 100) \<and>
        (status b = ''critical'' \<longleftrightarrow> r < 100 \<and> r \<ge> b_critical b) \<and>
        (status b = ''warning'' \<longleftrightarrow> r < 100 \<and> r < b_critical b \<and> r \<ge> b_warning b) \<and>
        (status b = ''good'' \<longleftrightarrow> r < 100 \<and> r < b_critical b \<and> r < b_warning b) \<and>
        (r = 100 \<longrightarrow> status b = ''exceeded'' \<and> status b \<noteq> ''critical'')"
    by blast
next
  define q where "q = (if fb_amount budget > 0
          then bc_spent (budget_card_of currentMonth categories budget) / fb_amount budget * 100
          else 0)"
  have p: "bc_percentage (budget_card_of currentMonth categories budget) = Num q"
    by (simp add: q_def card_percentage_Num)
  have "(bc_status (budget_card_of currentMonth categories budget) = ''over'' \<longleftrightarrow> q > 100) \<and>
        (bc_status (budget_card_of currentMonth categories budget) = ''warning'' \<longleftrightarrow>
           80 < q \<and> q \<le> 100) \<and>
        (bc_status (budget_card_of currentMonth categories budget) = ''good'' \<longleftrightarrow> q \<le> 80)"
    by (auto simp: card_status p)
  with p show "\<exists>q. bc_percentage (budget_card_of currentMonth categories budget) = Num q \<and>
        (bc_status (budget_card_of currentMonth categories budget) = ''over'' \<longleftrightarrow> q > 100) \<and>
        (bc_status (budget_card_of currentMonth categories budget) = ''warning'' \<longleftrightarrow>
           80 < q \<and> q \<le> 100) \<and>
        (bc_status (budget_card_of currentMonth categories budget) = ''good'' \<longleftrightarrow> q \<le> 80)"
    by blast
qed

theorem budget_status_thresholds_witness:
  "percentageUsed (stored_budget 200 200 80 100) = Num 100 \<and>
   status (stored_budget 200 200 80 100) = ''exceeded'' \<and>
   status (stored_budget 200 200 80 100) \<noteq> ''critical'' \<and>
   status (stored_budget 200 190 80 95) = ''critical'' \<and>
   bc_status (budget_card_of march_transactions [] budget_a) = ''over''"
proof -
  have full: "percentageUsed (stored_budget 200 200 80 100) = Num 100"
    by (simp add: percentageUsed_Num stored_budget_def)
  have near: "percentageUsed (stored_budget 200 190 80 95) = Num 95"
    by (simp add: percentageUsed_Num stored_budget_def)
  have crit: "b_critical (stored_budget 200 190 80 95) = 95"
    by (simp add: stored_budget_def)
  have card: "bc_percentage (budget_card_of march_transactions [] budget_a) = Num 125"
    by (simp add: budget_card_of_def spent_of_def march_transactions_def budget_a_def Let_def
          js_div_def)
  from budget_status_thresholds [of "stored_budget 200 200 80 100" march_transactions "[]" budget_a]
    full card
  have "status (stored_budget 200 200 80 100) = ''exceeded'' \<and>
        status (stored_budget 200 200 80 100) \<noteq> ''critical'' \<and>
        bc_status (budget_card_of march_transactions [] budget_a) = ''over''"
    by auto
  moreover from budget_status_thresholds
      [of "stored_budget 200 190 80 95" march_transactions "[]" budget_a] near crit
  have "status (stored_budget 200 190 80 95) = ''critical''"
    by auto
  ultimately show ?thesis
    using full by simp
qed

text \<open>
  Claim C2 says that the remaining value is \<open>max(0, amount - spent)\<close> for every budget and
  transaction list. On the dashboard it is the plain difference: with the budget of 120
  and expenses of 150 the card shows a remaining amount of -30, where the claim has 0.
\<close>

theorem dashboard_remaining_negative:
  "map bc_spent (budgetStatus [budget_a] march_transactions []) = [150] \<and>
   map bc_remaining (budgetStatus [budget_a] march_transactions []) = [- 30] \<and>
   max 0 (fb_amount budget_a - 150) = 0"
  by (simp add: budgetStatus_def budget_card_of_def spent_of_def budget_a_def
      march_transactions_def Let_def)

text \<open>
  Claim C2, as amended: the \<open>remaining\<close> value of the Budget model equals
  \<open>max(0, amount - spent)\<close> and is never negative, also when \<open>spent\<close> exceeds \<open>amount\<close>.
  The card of the dashboard, which adds \<open>spent\<close> up from the expenses of the budget's
  category, carries the signed difference \<open>amount - spent\<close>, negative exactly when the
  budget is overspent.
\<close>

theorem remaining_clamped_on_model:
  "remaining b = max 0 (b_amount b - b_spent b) \<and> 0 \<le> remaining b \<and>
   (b_spent b > b_amount b \<longrightarrow> remaining b = 0) \<and>
   bc_remaining (budget_card_of currentMonth categories budget) =
     fb_amount budget - bc_spent (budget_card_of currentMonth categories budget) \<and>
   bc_spent (budget_card_of currentMonth categories budget) =
     sum_list (map ft_amount
       (filter (\<lambda>t. ft_type t = ''expense'' \<and> ft_categoryId t = fb_categoryId budget)
          currentMonth)) \<and>
   (bc_remaining (budget_card_of currentMonth categories budget) < 0 \<longleftrightarrow>
      bc_spent (budget_card_of currentMonth categories budget) > fb_amount budget)"
  by (auto simp: remaining_def budget_card_of_def Let_def spent_of_def foldl_add_amounts)

theorem remaining_clamped_on_model_witness:
  "remaining (stored_budget 120 150 80 95) = 0 \<and>
   bc_remaining (budget_card_of march_transactions [] budget_a) = - 30"
  using remaining_clamped_on_model
          [of "stored_budget 120 150 80 95" march_transactions "[]" budget_a]
  by (simp add: stored_budget_def march_transactions_def budget_a_def)

text \<open>
  Claim C3: the percentage used is \<open>spent / amount * 100\<close> when the amount is positive and
  0 when the amount is 0, the division being guarded: the percentage is a finite number
  in every case, never the \<open>Infinity\<close> or \<open>NaN\<close> of a division by zero; so a budget of
  amount 0 with the default thresholds 80 and 95 has percentage 0 and status \<open>good\<close>,
  whatever was spent. Both the virtuals of the model and the cards of the dashboard
  compute it this way.
\<close>

theorem percentage_guarded:
  "(b_amount b > 0 \<longrightarrow> percentageUsed b = Num (b_spent b / b_amount b * 100)) \<and>
   (b_amount b = 0 \<longrightarrow> percentageUsed b = Num 0) \<and>
   percentageUsed b \<noteq> Infinity \<and> percentageUsed b \<noteq> NegInfinity \<and>
   percentageUsed b \<noteq> NaN \<and>
   (b_amount b = 0 \<and> b_warning b = 80 \<and> b_critical b = 95 \<longrightarrow> status b = ''good'') \<and>
   (fb_amount budget > 0 \<longrightarrow>
      bc_percentage (budget_card_of currentMonth categories budget) =
        Num (bc_spent (budget_card_of currentMonth categories budget) / fb_amount budget
               * 100)) \<and>
   (fb_amount budget = 0 \<longrightarrow>
      bc_percentage (budget_card_of currentMonth categories budget) = Num 0 \<and>
      bc_status (budget_card_of currentMonth categories budget) = ''good'') \<and>
   bc_percentage (budget_card_of currentMonth categories budget) \<noteq> Infinity \<and>
   bc_percentage (budget_card_of currentMonth categories budget) \<noteq> NegInfinity \<and>
   bc_percentage (budget_card_of currentMonth categories budget) \<noteq> NaN"
proof -
  have model:
    "(b_amount b > 0 \<longrightarrow> percentageUsed b = Num (b_spent b / b_amount b * 100)) \<and>
     (b_amount b = 0 \<longrightarrow> percentageUsed b = Num 0) \<and>
     percentageUsed b \<noteq> Infinity \<and> percentageUsed b \<noteq> NegInfinity \<and>
     percentageUsed b \<noteq> NaN"
    by (simp add: percentageUsed_def js_div_def)
  have good: "b_amount b = 0 \<and> b_warning b = 80 \<and> b_critical b = 95 \<longrightarrow> status b = ''good''"
    by (simp add: status_def percentageUsed_def)
  have card:
    "(fb_amount budget > 0 \<longrightarrow>
        bc_percentage (budget_card_of currentMonth categories budget) =
          Num (bc_spent (budget_card_of currentMonth categories budget) / fb_amount budget
                 * 100)) \<and>
     (fb_amount budget = 0 \<longrightarrow>
        bc_percentage (budget_card_of currentMonth categories budget) = Num 0 \<and>
        bc_status (budget_card_of currentMonth categories budget) = ''good'') \<and>
     bc_percentage (budget_card_of currentMonth categories budget) \<noteq> Infinity \<and>
     bc_percentage (budget_card_of currentMonth categories budget) \<noteq> NegInfinity \<and>
     bc_percentage (budget_card_of currentMonth categories budget) \<noteq> NaN"
    by (simp add: budget_card_of_def Let_def js_div_def)
  from model good card show ?thesis by blast
qed

theorem percentage_guarded_witness:
  "percentageUsed (stored_budget 0 150 80 95) = Num 0 \<and>
   status (stored_budget 0 150 80 95) = ''good'' \<and>
   percentageUsed (stored_budget 120 150 80 95) = Num 125 \<and>
   bc_percentage (budget_card_of march_transactions [] budget_a) = Num 125 \<and>
   bc_percentage (budget_card_of march_transactions [] (budget_a\<lparr>fb_amount := 0\<rparr>)) = Num 0 \<and>
   bc_status (budget_card_of march_transactions [] (budget_a\<lparr>fb_amount := 0\<rparr>)) = ''good''"
proof -
  have zero: "b_amount (stored_budget 0 150 80 95) = 0 \<and>
      b_warning (stored_budget 0 150 80 95) = 80 \<and> b_critical (stored_budget 0 150 80 95) = 95"
    by (simp add: stored_budget_def)
  have pos: "b_amount (stored_budget 120 150 80 95) > 0"
    by (simp add: stored_budget_def)
  have val: "b_spent (stored_budget 120 150 80 95) / b_amount (stored_budget 120 150 80 95)
               * 100 = 125"
    by (simp add: stored_budget_def)
  have cpos: "fb_amount budget_a > 0" and czero: "fb_amount (budget_a\<lparr>fb_amount := 0\<rparr>) = 0"
    by (simp_all add: budget_a_def)
  have cval: "bc_spent (budget_card_of march_transactions [] budget_a) / fb_amount budget_a
                * 100 = 125"
    by (simp add: budget_card_of_def spent_of_def march_transactions_def budget_a_def Let_def)
  from percentage_guarded [of "stored_budget 0 150 80 95" budget_a march_transactions "[]"]
    zero cpos cval
  have "percentageUsed (stored_budget 0 150 80 95) = Num 0 \<and>
        status (stored_budget 0 150 80 95) = ''good'' \<and>
        bc_percentage (budget_card_of march_transactions [] budget_a) = Num 125"
    by simp
  moreover from percentage_guarded [of "stored_budget 120 150 80 95"
       "budget_a\<lparr>fb_amount := 0\<rparr>" march_transactions "[]"] pos val czero
  have "percentageUsed (stored_budget 120 150 80 95) = Num 125 \<and>
        bc_percentage (budget_card_of march_transactions []
           (budget_a\<lparr>fb_amount := 0\<rparr>)) = Num 0 \<and>
        bc_status (budget_card_of march_transactions [] (budget_a\<lparr>fb_amount := 0\<rparr>)) = ''good''"
    by simp
  ultimately show ?thesis by blast
qed

section \<open>The grouping stage\<close>

lemma group_add_keys:
  "fst ` set (group_add key init step d gs) = insert (key d) (fst ` set gs)"
  by (induction key init step d gs rule: group_add.induct) (auto simp: image_iff)

lemma group_stage_keys_aux:
  "fst ` set (foldl (\<lambda>gs d. group_add key init step d gs) gs docs) =
   fst ` set gs \<union> key ` set docs"
  by (induction docs arbitrary: gs) (auto simp: group_add_keys)

lemma group_stage_keys: "fst ` set (group_stage key init step docs) = key ` set docs"
  by (simp add: group_stage_def group_stage_keys_aux)

lemma group_add_distinct:
  "distinct (map fst gs) \<Longrightarrow> distinct (map fst (group_add key init step d gs))"
  by (induction key init step d gs rule: group_add.induct) (auto simp: group_add_keys)

lemma group_stage_distinct_aux:
  "distinct (map fst gs) \<Longrightarrow>
   distinct (map fst (foldl (\<lambda>gs d. group_add key init step d gs) gs docs))"
  by (induction docs arbitrary: gs) (simp_all add: group_add_distinct)

lemma group_stage_distinct: "distinct (map fst (group_stage key init step docs))"
  by (simp add: group_stage_def group_stage_distinct_aux)

text \<open>A quantity that every document adds to its accumulator adds up over the groups.\<close>

lemma group_add_sum:
  assumes "f (init d) = g d" and "\<And>a. f (step d a) = f a + g d"
  shows "sum_list (map (\<lambda>p. f (snd p)) (group_add key init step d gs)) =
         sum_list (map (\<lambda>p. f (snd p)) gs) + (g d :: rat)"
  using assms by (induction key init step d gs rule: group_add.induct) auto

lemma group_stage_sum_aux:
  assumes "\<And>d. f (init d) = g d" and "\<And>d a. f (step d a) = f a + g d"
  shows "sum_list (map (\<lambda>p. f (snd p)) (foldl (\<lambda>gs d. group_add key init step d gs) gs docs)) =
         sum_list (map (\<lambda>p. f (snd p)) gs) + (sum_list (map g docs) :: rat)"
proof (induction docs arbitrary: gs)
  case Nil
  then show ?case by simp
next
  case (Cons d docs)
  have "sum_list (map (\<lambda>p. f (snd p)) (group_add key init step d gs)) =
         sum_list (map (\<lambda>p. f (snd p)) gs) + g d"
    by (rule group_add_sum) (simp_all add: assms)
  with Cons.IH [of "group_add key init step d gs"] show ?case by simp
qed

lemma group_stage_sum:
  assumes "\<And>d. f (init d) = g d" and "\<And>d a. f (step d a) = f a + g d"
  shows "sum_list (map (\<lambda>p. f (snd p)) (group_stage key init step docs)) =
         (sum_list (map g docs) :: rat)"
  unfolding group_stage_def using group_stage_sum_aux [of f init g step key "[]" docs] assms
  by simp

lemma sum_list_insort_key:
  "sum_list (map f (insort_key k x xs)) = (f x :: rat) + sum_list (map f xs)"
  by (induction xs) auto

lemma sum_list_sort_key: "sum_list (map f (sort_key k xs)) = (sum_list (map f xs) :: rat)"
  by (induction xs) (auto simp: sum_list_insort_key)

section \<open>Category breakdown against the summary\<close>

lemma sum_unwind:
  "sum_list (map (\<lambda>d. t_amount (fst d)) (unwind_categoryInfo categories docs)) =
   sum_list (map (\<lambda>t. t_amount t * of_nat (length (lookup_categoryInfo categories t))) docs)"
proof (induction docs)
  case Nil
  then show ?case by (simp add: unwind_categoryInfo_def)
next
  case (Cons t docs)
  have "sum_list (map (\<lambda>d. t_amount (fst d)) (map (\<lambda>c. (t, c)) cs)) =
        t_amount t * of_nat (length cs)" for cs :: "category list"
    by (induction cs) (auto simp: algebra_simps)
  with Cons show ?case by (simp add: unwind_categoryInfo_def)
qed

text \<open>
  What the totals of the breakdown add up to, in general: every matching transaction
  counts once for each category document its reference resolves to, so not at all when
  it resolves to none.
\<close>

lemma breakdown_total:
  "sum_list (map br_total (category_breakdown user type startDate endDate categories docs)) =
   sum_list (map (\<lambda>t. t_amount t * of_nat (length (lookup_categoryInfo categories t)))
     (filter (\<lambda>t. t_user t = user \<and> t_type t = type \<and>
                  match_date startDate endDate (t_date t)) docs))"
proof -
  define M where "M = filter (\<lambda>t. t_user t = user \<and> t_type t = type \<and>
                             match_date startDate endDate (t_date t)) docs"
  have "sum_list (map br_total (category_breakdown user type startDate endDate categories docs)) =
        sum_list (map br_total (map row_of
          (group_stage (\<lambda>d. t_category (fst d)) cat_init cat_step
             (unwind_categoryInfo categories M))))"
    by (simp only: category_breakdown_def M_def sum_list_sort_key)
  also have "\<dots> = sum_list (map (\<lambda>p. a_total (snd p))
          (group_stage (\<lambda>d. t_category (fst d)) cat_init cat_step
             (unwind_categoryInfo categories M)))"
    by (simp add: row_of_def comp_def)
  also have "\<dots> = sum_list (map (\<lambda>d. t_amount (fst d)) (unwind_categoryInfo categories M))"
    by (rule group_stage_sum) (simp_all add: cat_init_def cat_step_def)
  also have "\<dots> =
      sum_list (map (\<lambda>t. t_amount t * of_nat (length (lookup_categoryInfo categories t))) M)"
    by (rule sum_unwind)
  finally show ?thesis by (simp only: M_def)
qed

lemma lookup_unique:
  "distinct (map c_id categories) \<Longrightarrow> t_category t \<in> c_id ` set categories \<Longrightarrow>
   length (lookup_categoryInfo categories t) = 1"
proof (induction categories)
  case Nil
  then show ?case by simp
next
  case (Cons c cs)
  show ?case
  proof (cases "c_id c = t_category t")
    case True
    from Cons.prems(1) have notin: "c_id c \<notin> c_id ` set cs"
      by simp
    have "\<forall>x\<in>set cs. c_id x \<noteq> t_category t"
    proof (intro ballI notI)
      fix x
      assume "x \<in> set cs" and eq: "c_id x = t_category t"
      then have "c_id x \<in> c_id ` set cs"
        by (intro imageI)
      with eq True notin show False
        by simp
    qed
    then have "filter (\<lambda>c. c_id c = t_category t) cs = []"
      by (simp add: filter_empty_conv)
    with True show ?thesis
      by (simp add: lookup_categoryInfo_def)
  next
    case False
    with Cons.prems have "distinct (map c_id cs)" and "t_category t \<in> c_id ` set cs"
      by auto
    then have "length (lookup_categoryInfo cs t) = 1"
      by (rule Cons.IH)
    with False show ?thesis
      by (simp add: lookup_categoryInfo_def)
  qed
qed

lemma tot_of_group_add:
  "tot_of (group_add t_type sum_count_init sum_count_step d gs) k =
   tot_of gs k + (if t_type d = k then t_amount d else 0)"
  by (induction gs) (auto simp: tot_of_def sum_count_init_def sum_count_step_def)

lemma tot_of_group_stage_aux:
  "tot_of (foldl (\<lambda>gs d. group_add t_type sum_count_init sum_count_step d gs) gs docs) k =
   tot_of gs k + sum_list (map t_amount (filter (\<lambda>t. t_type t = k) docs))"
  by (induction docs arbitrary: gs) (simp_all add: tot_of_group_add)

lemma tot_of_group_stage:
  "tot_of (group_stage t_type sum_count_init sum_count_step docs) k =
   sum_list (map t_amount (filter (\<lambda>t. t_type t = k) docs))"
  by (simp add: group_stage_def tot_of_group_stage_aux) (simp add: tot_of_def)

lemma summary_fold_expense:
  "distinct (map fst gs) \<Longrightarrow>
   snd (foldl (\<lambda>res (k, st).
                if k = ''income'' then (st, snd res)
                else if k = ''expense'' then (fst res, st)
                else res) (i, e) gs) =
   (case map_of gs ''expense'' of None \<Rightarrow> e | Some st \<Rightarrow> st)"
proof (induction gs arbitrary: i e)
  case Nil
  then show ?case by simp
next
  case (Cons g gs)
  obtain k st where g: "g = (k, st)" by (cases g)
  from Cons.prems g have d: "distinct (map fst gs)" and nk: "k \<notin> fst ` set gs"
    by auto
  show ?case
  proof (cases "k = ''expense''")
    case True
    with nk have "map_of gs ''expense'' = None"
      by (simp add: map_of_eq_None_iff)
    with Cons.IH [OF d, of i st] True g show ?thesis by simp
  next
    case False
    with Cons.IH [OF d] g show ?thesis by simp
  qed
qed

lemma summary_fold_income:
  "distinct (map fst gs) \<Longrightarrow>
   fst (foldl (\<lambda>res (k, st).
                if k = ''income'' then (st, snd res)
                else if k = ''expense'' then (fst res, st)
                else res) (i, e) gs) =
   (case map_of gs ''income'' of None \<Rightarrow> i | Some st \<Rightarrow> st)"
proof (induction gs arbitrary: i e)
  case Nil
  then show ?case by simp
next
  case (Cons g gs)
  obtain k st where g: "g = (k, st)" by (cases g)
  from Cons.prems g have d: "distinct (map fst gs)" and nk: "k \<notin> fst ` set gs"
    by auto
  show ?case
  proof (cases "k = ''income''")
    case True
    with nk have "map_of gs ''income'' = None"
      by (simp add: map_of_eq_None_iff)
    with Cons.IH [OF d, of st e] True g show ?thesis by simp
  next
    case False
    with Cons.IH [OF d] g show ?thesis by simp
  qed
qed

lemma map_of_stats:
  "map_of (map (\<lambda>(k, a). (k, stats_of a)) gs) k = map_option stats_of (map_of gs k)"
  by (induction gs) auto

lemma summary_expense_total:
  "s_total (r_expense (summary user startDate endDate docs)) =
   sum_list (map t_amount
     (filter (\<lambda>t. t_type t = ''expense'')
        (filter (\<lambda>t. t_user t = user \<and> match_date startDate endDate (t_date t)) docs)))"
proof -
  define G where "G = group_stage t_type sum_count_init sum_count_step
     (filter (\<lambda>t. t_user t = user \<and> match_date startDate endDate (t_date t)) docs)"
  have d: "distinct (map fst (map (\<lambda>(k, a). (k, stats_of a)) G))"
    using group_stage_distinct [of t_type sum_count_init sum_count_step]
    by (simp add: G_def comp_def case_prod_unfold)
  have "r_expense (summary user startDate endDate docs) =
        (case map_of (map (\<lambda>(k, a). (k, stats_of a)) G) ''expense'' of
           None \<Rightarrow> zero_stats | Some st \<Rightarrow> st)"
    using summary_fold_expense [OF d, of zero_stats zero_stats]
    by (simp add: summary_def summary_groups_def G_def Let_def)
  then have "r_expense (summary user startDate endDate docs) =
        (case map_of G ''expense'' of None \<Rightarrow> zero_stats | Some a \<Rightarrow> stats_of a)"
    by (simp add: map_of_stats split: option.splits)
  then have "s_total (r_expense (summary user startDate endDate docs)) = tot_of G ''expense''"
    by (simp add: tot_of_def zero_stats_def stats_of_def split: option.splits)
  then show ?thesis
    by (simp add: G_def tot_of_group_stage)
qed

lemma summary_income_total:
  "s_total (r_income (summary user startDate endDate docs)) =
   sum_list (map t_amount
     (filter (\<lambda>t. t_type t = ''income'')
        (filter (\<lambda>t. t_user t = user \<and> match_date startDate endDate (t_date t)) docs)))"
proof -
  define G where "G = group_stage t_type sum_count_init sum_count_step
     (filter (\<lambda>t. t_user t = user \<and> match_date startDate endDate (t_date t)) docs)"
  have d: "distinct (map fst (map (\<lambda>(k, a). (k, stats_of a)) G))"
    using group_stage_distinct [of t_type sum_count_init sum_count_step]
    by (simp add: G_def comp_def case_prod_unfold)
  have "r_income (summary user startDate endDate docs) =
        (case map_of (map (\<lambda>(k, a). (k, stats_of a)) G) ''income'' of
           None \<Rightarrow> zero_stats | Some st \<Rightarrow> st)"
    using summary_fold_income [OF d, of zero_stats zero_stats]
    by (simp add: summary_def summary_groups_def G_def Let_def)
  then have "r_income (summary user startDate endDate docs) =
        (case map_of G ''income'' of None \<Rightarrow> zero_stats | Some a \<Rightarrow> stats_of a)"
    by (simp add: map_of_stats split: option.splits)
  then have "s_total (r_income (summary user startDate endDate docs)) = tot_of G ''income''"
    by (simp add: tot_of_def zero_stats_def stats_of_def split: option.splits)
  then show ?thesis
    by (simp add: G_def tot_of_group_stage)
qed

lemma breakdown_total_resolved:
  assumes "distinct (map c_id categories)"
    and "\<forall>t\<in>set docs. t_category t \<in> c_id ` set categories"
  shows "sum_list (map br_total
            (category_breakdown user ''expense'' startDate endDate categories docs)) =
         s_total (r_expense (summary user startDate endDate docs)) \<and>
         sum_list (map br_total
            (category_breakdown user ''income'' startDate endDate categories docs)) =
         s_total (r_income (summary user startDate endDate docs))"
proof -
  have one: "t_amount t * of_nat (length (lookup_categoryInfo categories t)) = t_amount t"
    if "t \<in> set docs" for t
    using that assms lookup_unique [of categories t] by simp
  have "sum_list (map (\<lambda>t. t_amount t * of_nat (length (lookup_categoryInfo categories t)))
          (filter P docs)) = sum_list (map t_amount (filter P docs))" for P
    by (rule arg_cong [where f = sum_list], rule map_cong) (simp_all add: one)
  then show ?thesis
    by (simp add: breakdown_total summary_expense_total summary_income_total conj_commute
         cong: conj_cong)
qed

text \<open>
  Claim C4: the totals of the groups of the category breakdown add up to the total that
  the summary reports for the same type. The pipeline drops, at its \<open>$unwind\<close> stage, every
  transaction whose category reference resolves to no category document, and the summary
  does not: for the expenses \<open>lunch\<close> (20, category 2) and \<open>taxi\<close> (50, category 9, of
  which there is no document) the breakdown adds up to 20 and the summary says 70.
\<close>

theorem breakdown_total_misses_unresolved:
  "sum_list (map br_total
      (category_breakdown 7 ''expense'' None None [cat_food] [tx_food, tx_orphan])) = 20 \<and>
   s_total (r_expense (summary 7 None None [tx_food, tx_orphan])) = 70"
  by (simp add: breakdown_total summary_expense_total lookup_categoryInfo_def match_date_def
      cat_food_def tx_food_def tx_orphan_def)

text \<open>
  Claim C5: a transaction whose category was deactivated or deleted still appears in the
  breakdown, under the category's name and colour when the reference resolves, under
  \<open>Uncategorized\<close> when it does not, and none is left out. The report route keeps the
  expense of the deactivated category \<open>Food\<close>, and leaves the expense out whose category
  has no document; the dashboard's chart puts such an expense under \<open>Uncategorized\<close>.
\<close>

theorem breakdown_omits_unresolved:
  "category_breakdown 7 ''expense'' None None [cat_food] [tx_food, tx_orphan] =
     [\<lparr>br_id = 2, br_name = ''Food'', br_color = ''#ef4444'', br_total = 20, br_count = 1,
       br_avgAmount = 20\<rparr>]"
  by (simp add: category_breakdown_def unwind_categoryInfo_def lookup_categoryInfo_def
      match_date_def cat_food_def tx_food_def tx_orphan_def group_stage_def cat_init_def row_of_def)

lemma dashboard_uncategorized:
  "categoryData
     [\<lparr>ft_id = 21, ft_type = ''expense'', ft_amount = 50, ft_categoryId = 9,
       ft_description = ''taxi''\<rparr>] [] =
   [\<lparr>cs_name = ''Uncategorized'', cs_value = 50, cs_color = ''#64748b''\<rparr>]"
  by (simp add: categoryData_def expensesByCategory_def or_default_def)

text \<open>
  The store does not keep references intact, and the routes themselves lead to a
  transaction whose category has no document: the update route assigns the key \<open>user\<close>
  like any other, after which the former owner's category counts no transaction of
  its owner and is removed for good.
\<close>

lemma unresolved_reference_reachable:
  "update_transaction 7 22 [cat_groceries] [tx_groceries] only_user =
     ((200, ''Transaction updated successfully''), [tx_groceries\<lparr>t_user := 8\<rparr>]) \<and>
   delete_category 7 3 [cat_groceries] [tx_groceries\<lparr>t_user := 8\<rparr>] =
     ((200, ''Category deleted successfully''), []) \<and>
   category_breakdown 8 ''expense'' None None [] [tx_groceries\<lparr>t_user := 8\<rparr>] = [] \<and>
   s_total (r_expense (summary 8 None None [tx_groceries\<lparr>t_user := 8\<rparr>])) = 35"
proof -
  have "update_transaction 7 22 [cat_groceries] [tx_groceries] only_user =
     ((200, ''Transaction updated successfully''), [tx_groceries\<lparr>t_user := 8\<rparr>])"
    by (simp add: update_transaction_def only_user_def tx_groceries_def replace_first_def
          assign_transaction_def)
  moreover have "delete_category 7 3 [cat_groceries] [tx_groceries\<lparr>t_user := 8\<rparr>] =
     ((200, ''Category deleted successfully''), [])"
    by (simp add: delete_category_def cat_groceries_def tx_groceries_def)
  moreover have
    "category_breakdown 8 ''expense'' None None [] [tx_groceries\<lparr>t_user := 8\<rparr>] = []"
    by (simp add: category_breakdown_def unwind_categoryInfo_def lookup_categoryInfo_def
          match_date_def tx_groceries_def group_stage_def)
  moreover have "s_total (r_expense (summary 8 None None [tx_groceries\<lparr>t_user := 8\<rparr>])) = 35"
    by (simp add: summary_expense_total match_date_def tx_groceries_def)
  ultimately show ?thesis by blast
qed

section \<open>Monthly trends\<close>

lemma trends_keys:
  "fst ` set (trends tz user year docs) \<subseteq>
     (\<lambda>t. d_month (t_date t)) `
       {t \<in> set docs. t_user t = user \<and> date_le (new_Date tz year 0 1) (t_date t) \<and>
                       date_le (t_date t) (new_Date tz year 11 31)}"
proof
  fix m
  define M where "M = filter (\<lambda>t. t_user t = user \<and>
                              date_le (new_Date tz year 0 1) (t_date t) \<and>
                              date_le (t_date t) (new_Date tz year 11 31)) docs"
  define S where "S = group_stage (\<lambda>t. (d_month (t_date t), t_type t))
                        sum_count_init sum_count_step M"
  assume "m \<in> fst ` set (trends tz user year docs)"
  then have "m \<in> (\<lambda>g. fst (fst g)) ` set S"
    by (simp add: trends_def Let_def group_stage_keys S_def M_def)
  then obtain g where g: "g \<in> set S" and m: "m = fst (fst g)"
    by blast
  have "fst ` set S = (\<lambda>t. (d_month (t_date t), t_type t)) ` set M"
    unfolding S_def by (rule group_stage_keys)
  moreover have "fst g \<in> fst ` set S"
    using g by (rule imageI)
  ultimately have "fst g \<in> (\<lambda>t. (d_month (t_date t), t_type t)) ` set M"
    by simp
  then obtain t where t: "t \<in> set M" and fg: "fst g = (d_month (t_date t), t_type t)"
    by blast
  from t have "t \<in> set docs" and "t_user t = user"
    and "date_le (new_Date tz year 0 1) (t_date t)"
    and "date_le (t_date t) (new_Date tz year 11 31)"
    by (simp_all add: M_def)
  moreover have "m = d_month (t_date t)"
    using m fg by simp
  ultimately show "m \<in> (\<lambda>t. d_month (t_date t)) `
       {t \<in> set docs. t_user t = user \<and> date_le (new_Date tz year 0 1) (t_date t) \<and>
                       date_le (t_date t) (new_Date tz year 11 31)}"
    by blast
qed

lemma find_absent: "k \<notin> fst ` set ts \<Longrightarrow> find (\<lambda>t. fst t = k) ts = None"
  by (force simp: find_None_iff)

lemma entry_absent:
  "Suc i \<notin> fst ` set ts \<Longrightarrow>
   trend_entry_of ts (m, i) =
     \<lparr>mt_month = m, mt_income = 0, mt_expense = 0, mt_balance = 0,
      mt_incomeCount = 0, mt_expenseCount = 0\<rparr>"
  by (simp add: trend_entry_of_def find_absent or0_def)

lemma length_monthNames: "length monthNames = 12"
  by (simp add: monthNames_def)

lemma length_monthly: "length (monthly_trends tz user year docs) = 12"
  by (simp add: monthly_trends_def length_monthNames)

lemma months_monthly: "map mt_month (monthly_trends tz user year docs) = monthNames"
proof -
  have "map mt_month (map (trend_entry_of ts) ps) = map fst ps" for ts ps
    by (induction ps) (auto simp: trend_entry_of_def Let_def)
  then have "map mt_month (monthly_trends tz user year docs) =
      map fst (zip monthNames [0..<length monthNames])"
    by (simp only: monthly_trends_def)
  also have "\<dots> = monthNames"
    by (rule map_fst_zip) simp
  finally show ?thesis .
qed

lemma nth_monthly:
  assumes "i < 12"
  shows "monthly_trends tz user year docs ! i =
     trend_entry_of (trends tz user year docs) (monthNames ! i, i)"
proof -
  have "i < length (zip monthNames [0..<length monthNames])"
    using assms by (simp add: length_monthNames)
  moreover have "zip monthNames [0..<length monthNames] ! i = (monthNames ! i, i)"
    using assms by (simp add: length_monthNames)
  ultimately show ?thesis
    by (simp only: monthly_trends_def nth_map)
qed

text \<open>
  What holds of the route in every zone: the answer has 12 entries, named January to
  December in this order, and a month into which no transaction of the user within the
  bounds of the query falls is an entry of zeros.
\<close>

lemma monthly_trends_structure:
  "length (monthly_trends tz user year docs) = 12 \<and>
   map mt_month (monthly_trends tz user year docs) =
     [''Jan'', ''Feb'', ''Mar'', ''Apr'', ''May'', ''Jun'',
      ''Jul'', ''Aug'', ''Sep'', ''Oct'', ''Nov'', ''Dec''] \<and>
   (\<forall>i<12. (\<forall>t\<in>set docs. t_user t = user \<and>
                  date_le (new_Date tz year 0 1) (t_date t) \<and>
                  date_le (t_date t) (new_Date tz year 11 31) \<longrightarrow>
                d_month (t_date t) \<noteq> i + 1) \<longrightarrow>
      monthly_trends tz user year docs ! i =
        \<lparr>mt_month = monthNames ! i, mt_income = 0, mt_expense = 0, mt_balance = 0,
         mt_incomeCount = 0, mt_expenseCount = 0\<rparr>)"
proof (intro conjI allI impI)
  show "length (monthly_trends tz user year docs) = 12" by (rule length_monthly)
  show "map mt_month (monthly_trends tz user year docs) =
     [''Jan'', ''Feb'', ''Mar'', ''Apr'', ''May'', ''Jun'',
      ''Jul'', ''Aug'', ''Sep'', ''Oct'', ''Nov'', ''Dec'']"
    using months_monthly by (simp add: monthNames_def)
next
  fix i :: nat
  assume i: "i < 12"
    and none: "\<forall>t\<in>set docs. t_user t = user \<and>
                  date_le (new_Date tz year 0 1) (t_date t) \<and>
                  date_le (t_date t) (new_Date tz year 11 31) \<longrightarrow>
                d_month (t_date t) \<noteq> i + 1"
  have "Suc i \<notin> fst ` set (trends tz user year docs)"
    using trends_keys [of tz user year docs] none by auto
  then show "monthly_trends tz user year docs ! i =
        \<lparr>mt_month = monthNames ! i, mt_income = 0, mt_expense = 0, mt_balance = 0,
         mt_incomeCount = 0, mt_expenseCount = 0\<rparr>"
    using i by (simp add: nth_monthly entry_absent)
qed

text \<open>On a server in UTC the bounds lie within the year, so that there a month of the
  year without a transaction of the user is an entry of zeros.\<close>

lemma date_in_year:
  "date_le (new_Date 0 y m1 d1) d \<Longrightarrow> date_le d (new_Date 0 y m2 d2) \<Longrightarrow>
   d_year d = full_year y"
  by (auto simp: date_le_def new_Date_def)

lemma monthly_trends_structure_utc:
  assumes "i < 12"
    and "\<forall>t\<in>set docs. t_user t = user \<and> d_year (t_date t) = full_year year \<longrightarrow>
           d_month (t_date t) \<noteq> i + 1"
  shows "monthly_trends 0 user year docs ! i =
        \<lparr>mt_month = monthNames ! i, mt_income = 0, mt_expense = 0, mt_balance = 0,
         mt_incomeCount = 0, mt_expenseCount = 0\<rparr>"
proof -
  have "\<forall>t\<in>set docs. t_user t = user \<and>
                  date_le (new_Date 0 year 0 1) (t_date t) \<and>
                  date_le (t_date t) (new_Date 0 year 11 31) \<longrightarrow>
                d_month (t_date t) \<noteq> i + 1"
    using assms(2) date_in_year by blast
  with assms(1) monthly_trends_structure [of 0 user year docs] show ?thesis
    by blast
qed

lemma trends_newyear_eve:
  "trends 330 7 2024 [tx_newyear_eve] =
     [(12, \<lparr>ma_income = 0, ma_expense = 50, ma_incomeCount = 0, ma_expenseCount = 1\<rparr>)]"
  by (simp add: trends_def tx_newyear_eve_def date_le_def new_Date_def full_year_def
     group_stage_def sum_count_init_def month_init_def month_step_def)

lemma newyear_eve_utc:
  "monthly_trends 0 7 2024 [tx_newyear_eve] ! 11 =
     \<lparr>mt_month = ''Dec'', mt_income = 0, mt_expense = 0, mt_balance = 0,
      mt_incomeCount = 0, mt_expenseCount = 0\<rparr>"
proof -
  have "trends 0 7 2024 [tx_newyear_eve] = []"
    by (simp add: trends_def tx_newyear_eve_def date_le_def new_Date_def full_year_def
          group_stage_def)
  then show ?thesis
    by (simp add: nth_monthly monthNames_def trend_entry_of_def or0_def)
qed

text \<open>
  Claim C6: for every transaction list and year the monthly trend has exactly 12 entries,
  named January to December in this order, and every month with no transactions is an
  entry of zeros (income, expense, balance and both counts). The 12 named entries are
  always there (\<open>monthly_trends_structure\<close>). The bounds of the query, however, are
  midnights in the zone of the server, while \<open>$month\<close> reads the month in UTC: on a server
  at UTC+5:30 the query for 2024 starts at 18:30 UTC on 2023-12-31, so an expense of 50
  made at 20:00 UTC that evening is counted in the entry \<open>Dec\<close> of 2024, a month in which
  there is no transaction. On a server in UTC that entry is zero (\<open>newyear_eve_utc\<close>), and
  the trend chart of the client, which bounds and names a month in one and the same
  zone, keeps the expense out of 2024.
\<close>

theorem previous_year_counted_in_december:
  "t_user tx_newyear_eve = 7 \<and> d_year (t_date tx_newyear_eve) = 2023 \<and>
   monthly_trends 330 7 2024 [tx_newyear_eve] ! 11 =
     \<lparr>mt_month = ''Dec'', mt_income = 0, mt_expense = 50, mt_balance = - 50,
      mt_incomeCount = 0, mt_expenseCount = 1\<rparr>"
proof -
  have "monthly_trends 330 7 2024 [tx_newyear_eve] ! 11 =
     \<lparr>mt_month = ''Dec'', mt_income = 0, mt_expense = 50, mt_balance = - 50,
      mt_incomeCount = 0, mt_expenseCount = 1\<rparr>"
    by (simp add: nth_monthly trends_newyear_eve monthNames_def trend_entry_of_def or0_def)
  then show ?thesis
    by (simp add: tx_newyear_eve_def)
qed

lemma trends_dec31: "trends 0 7 2024 [tx_dec31] = []"
  by (simp add: trends_def tx_dec31_def date_le_def new_Date_def full_year_def group_stage_def)

lemma trends_dec30:
  "trends 0 7 2024 [tx_dec30] =
     [(12, \<lparr>ma_income = 0, ma_expense = 50, ma_incomeCount = 0, ma_expenseCount = 1\<rparr>)]"
  by (simp add: trends_def tx_dec30_def date_le_def new_Date_def full_year_def group_stage_def
     sum_count_init_def month_init_def month_step_def)

lemma dec30_counted:
  "monthly_trends 0 7 2024 [tx_dec30] ! 11 =
     \<lparr>mt_month = ''Dec'', mt_income = 0, mt_expense = 50, mt_balance = - 50,
      mt_incomeCount = 0, mt_expenseCount = 1\<rparr>"
  by (simp add: nth_monthly trends_dec30 monthNames_def trend_entry_of_def or0_def)

text \<open>
  Claim C7: every transaction dated within the requested year is counted in the bucket
  of its month, those of December 31 included. The upper bound of the \<open>$match\<close> stage is
  \<open>new Date(year, 11, 31)\<close>, the first instant of December 31: on a server in UTC an
  expense of 50 made at 18:00 on 2024-12-31 is outside it and the December entry of 2024
  stays at zero, while the same expense a day earlier is counted (\<open>dec30_counted\<close>). The
  trend chart of the client bounds every month by \<open>endOfMonth\<close> and so counts the whole
  last day.
\<close>

theorem december_31_excluded:
  "t_user tx_dec31 = 7 \<and> d_year (t_date tx_dec31) = 2024 \<and> d_month (t_date tx_dec31) = 12 \<and>
   d_day (t_date tx_dec31) = 31 \<and>
   monthly_trends 0 7 2024 [tx_dec31] ! 11 =
     \<lparr>mt_month = ''Dec'', mt_income = 0, mt_expense = 0, mt_balance = 0,
      mt_incomeCount = 0, mt_expenseCount = 0\<rparr>"
proof -
  have "monthly_trends 0 7 2024 [tx_dec31] ! 11 =
     \<lparr>mt_month = ''Dec'', mt_income = 0, mt_expense = 0, mt_balance = 0,
      mt_incomeCount = 0, mt_expenseCount = 0\<rparr>"
    by (simp add: nth_monthly trends_dec31 monthNames_def trend_entry_of_def or0_def)
  then show ?thesis
    by (simp add: tx_dec31_def)
qed

section \<open>Creating a budget\<close>

text \<open>
  Claim C8 says that the creation of a budget is rejected if and only if an overlapping
  active budget of the same user, category and period exists. A well-formed request
  that names the category \<open>Salary\<close>, of type \<open>income\<close>, is rejected with status 400
  although no budget exists at all.
\<close>

theorem create_budget_rejected_without_overlap:
  "create_budget 11 7 [cat_salary] [] salary_body = ((400, ''Invalid expense category''), []) \<and>
   \<not> list_ex (overlaps 7 4 ''monthly'' march_1 march_31) []"
  by (simp add: create_budget_def salary_body_def cat_salary_def)

text \<open>
  Claim C8, as amended: the creation of a budget is answered with status 400 exactly when
  the body fails a validator of the route (the category is not a Mongo id, the amount is
  not a number of at least 0.01, the period is not weekly, monthly or yearly, the start
  date or the end date is not an ISO 8601 date), or the category is not an active
  expense category of the requester, or an active budget of the same user, category
  and period exists whose interval meets the new one under the inclusive test
  \<open>existing.start \<le> new.end\<close> and \<open>existing.end \<ge> new.start\<close>, dates compared as instants;
  a rejected request persists nothing. Otherwise the budget is created and answered
  with 201, provided it passes the validators of the Budget schema.
\<close>

theorem create_budget_outcomes:
  "(fst (fst (create_budget new_id user categories budgets body)) = 400 \<longleftrightarrow>
      (cb_category body = None \<or> cb_amount body = None \<or>
       (\<exists>a. cb_amount body = Some a \<and> a < 1 / 100) \<or>
       cb_period body \<notin> set [''weekly'', ''monthly'', ''yearly''] \<or>
       cb_startDate body = None \<or> cb_endDate body = None) \<or>
      \<not> (\<exists>c\<in>set categories. cb_category body = Some (c_id c) \<and> c_user c = user \<and>
            c_type c = ''expense'' \<and> c_isActive c) \<or>
      (\<exists>b\<in>set budgets. \<exists>s e.
          cb_startDate body = Some s \<and> cb_endDate body = Some e \<and>
          b_user b = user \<and> cb_category body = Some (b_category b) \<and>
          b_period b = cb_period body \<and> b_isActive b \<and>
          date_le (b_startDate b) e \<and> date_le s (b_endDate b))) \<and>
   (fst (fst (create_budget new_id user categories budgets body)) = 400 \<longrightarrow>
      snd (create_budget new_id user categories budgets body) = budgets) \<and>
   (\<forall>category amount startDate endDate.
      cb_category body = Some category \<and> cb_amount body = Some amount \<and>
      cb_startDate body = Some startDate \<and> cb_endDate body = Some endDate \<and>
      fst (fst (create_budget new_id user categories budgets body)) \<noteq> 400 \<and>
      budget_schema_ok (new_budget new_id user category amount startDate endDate body) \<longrightarrow>
        create_budget new_id user categories budgets body =
          ((201, ''Budget created successfully''),
           budgets @ [new_budget new_id user category amount startDate endDate body])) \<and>
   (\<forall>x y. date_le x y \<longleftrightarrow>
      d_year x < d_year y \<or>
      (d_year x = d_year y \<and>
        (d_month x < d_month y \<or>
         (d_month x = d_month y \<and>
           (d_day x < d_day y \<or> (d_day x = d_day y \<and> d_ms x \<le> d_ms y))))))"
proof -
  have dates: "\<forall>x y. date_le x y \<longleftrightarrow>
      d_year x < d_year y \<or>
      (d_year x = d_year y \<and>
        (d_month x < d_month y \<or>
         (d_month x = d_month y \<and>
           (d_day x < d_day y \<or> (d_day x = d_day y \<and> d_ms x \<le> d_ms y)))))"
    by (simp add: date_le_def)
  have main:
    "(fst (fst (create_budget new_id user categories budgets body)) = 400 \<longleftrightarrow>
      (cb_category body = None \<or> cb_amount body = None \<or>
       (\<exists>a. cb_amount body = Some a \<and> a < 1 / 100) \<or>
       cb_period body \<notin> set [''weekly'', ''monthly'', ''yearly''] \<or>
       cb_startDate body = None \<or> cb_endDate body = None) \<or>
      \<not> (\<exists>c\<in>set categories. cb_category body = Some (c_id c) \<and> c_user c = user \<and>
            c_type c = ''expense'' \<and> c_isActive c) \<or>
      (\<exists>b\<in>set budgets. \<exists>s e.
          cb_startDate body = Some s \<and> cb_endDate body = Some e \<and>
          b_user b = user \<and> cb_category body = Some (b_category b) \<and>
          b_period b = cb_period body \<and> b_isActive b \<and>
          date_le (b_startDate b) e \<and> date_le s (b_endDate b))) \<and>
     (fst (fst (create_budget new_id user categories budgets body)) = 400 \<longrightarrow>
        snd (create_budget new_id user categories budgets body) = budgets) \<and>
     (\<forall>category amount startDate endDate.
        cb_category body = Some category \<and> cb_amount body = Some amount \<and>
        cb_startDate body = Some startDate \<and> cb_endDate body = Some endDate \<and>
        fst (fst (create_budget new_id user categories budgets body)) \<noteq> 400 \<and>
        budget_schema_ok (new_budget new_id user category amount startDate endDate body) \<longrightarrow>
          create_budget new_id user categories budgets body =
            ((201, ''Budget created successfully''),
             budgets @ [new_budget new_id user category amount startDate endDate body]))"
  proof (cases "cb_category body")
    case None
    then show ?thesis by (simp add: create_budget_def)
  next
    case cat: (Some category)
    show ?thesis
    proof (cases "cb_amount body")
      case None
      with cat show ?thesis by (simp add: create_budget_def)
    next
      case amt: (Some amount)
      show ?thesis
      proof (cases "cb_startDate body")
        case None
        with cat amt show ?thesis by (simp add: create_budget_def)
      next
        case st: (Some startDate)
        show ?thesis
        proof (cases "cb_endDate body")
          case None
          with cat amt st show ?thesis by (simp add: create_budget_def)
        next
          case en: (Some endDate)
          have c: "(find (\<lambda>c. c_id c = category \<and> c_user c = user \<and>
                     c_type c = ''expense'' \<and> c_isActive c) categories = None) =
                   (\<not> (\<exists>c\<in>set categories. category = c_id c \<and> c_user c = user \<and>
                      c_type c = ''expense'' \<and> c_isActive c))"
            by (auto simp: find_None_iff)
          have o: "(find (overlaps user category (cb_period body) startDate endDate)
                      budgets = None) =
                   (\<not> (\<exists>b\<in>set budgets. b_user b = user \<and> category = b_category b \<and>
                      b_period b = cb_period body \<and> b_isActive b \<and>
                      date_le (b_startDate b) endDate \<and> date_le startDate (b_endDate b)))"
            by (auto simp: find_None_iff overlaps_def)
          show ?thesis
            using cat amt st en c o
            by (cases "find (\<lambda>c. c_id c = category \<and> c_user c = user \<and>
                     c_type c = ''expense'' \<and> c_isActive c) categories";
                cases "find (overlaps user category (cb_period body) startDate endDate)
                         budgets")
               (simp_all add: create_budget_def not_le, blast+)
        qed
      qed
    qed
  qed
  show ?thesis
    apply (intro conjI)
       apply (rule main [THEN conjunct1])
      apply (rule main [THEN conjunct2, THEN conjunct1])
     apply (rule main [THEN conjunct2, THEN conjunct2])
    apply (rule dates)
    done
qed

theorem create_budget_outcomes_witness:
  "create_budget 11 7 [cat_groceries] [new_budget 10 7 3 120 march_1 march_31 march_body]
      march_body =
      ((400, ''Budget already exists for this category and period''),
       [new_budget 10 7 3 120 march_1 march_31 march_body]) \<and>
   b_endDate february_budget = march_1 \<and>
   fst (fst (create_budget 11 7 [cat_groceries] [february_budget] march_body)) = 400 \<and>
   create_budget 11 7 [cat_groceries] [] march_body =
      ((201, ''Budget created successfully''),
       [new_budget 11 7 3 120 march_1 march_31 march_body])"
proof -
  have fields: "cb_category march_body = Some 3 \<and> cb_amount march_body = Some 120 \<and>
      cb_startDate march_body = Some march_1 \<and> cb_endDate march_body = Some march_31"
    by (simp add: march_body_def)
  have s: "budget_schema_ok (new_budget 11 7 3 120 march_1 march_31 march_body)"
    by (simp add: budget_schema_ok_def new_budget_def march_body_def)
  have valid: "\<not> (cb_category march_body = None \<or> cb_amount march_body = None \<or>
       (\<exists>a. cb_amount march_body = Some a \<and> a < 1 / 100) \<or>
       cb_period march_body \<notin> set [''weekly'', ''monthly'', ''yearly''] \<or>
       cb_startDate march_body = None \<or> cb_endDate march_body = None)"
    by (simp add: march_body_def)
  have cat: "\<exists>c\<in>set [cat_groceries]. cb_category march_body = Some (c_id c) \<and> c_user c = 7 \<and>
            c_type c = ''expense'' \<and> c_isActive c"
    by (simp add: march_body_def cat_groceries_def)
  have same: "\<exists>b\<in>set [new_budget 10 7 3 120 march_1 march_31 march_body]. \<exists>s e.
          cb_startDate march_body = Some s \<and> cb_endDate march_body = Some e \<and>
          b_user b = 7 \<and> cb_category march_body = Some (b_category b) \<and>
          b_period b = cb_period march_body \<and> b_isActive b \<and>
          date_le (b_startDate b) e \<and> date_le s (b_endDate b)"
    by (simp add: march_body_def new_budget_def date_le_def march_1_def march_31_def)
  have touch: "\<exists>b\<in>set [february_budget]. \<exists>s e.
          cb_startDate march_body = Some s \<and> cb_endDate march_body = Some e \<and>
          b_user b = 7 \<and> cb_category march_body = Some (b_category b) \<and>
          b_period b = cb_period march_body \<and> b_isActive b \<and>
          date_le (b_startDate b) e \<and> date_le s (b_endDate b)"
    by (simp add: march_body_def february_budget_def date_le_def march_1_def march_31_def)
  have none: "\<not> (\<exists>b\<in>set []. \<exists>s e.
          cb_startDate march_body = Some s \<and> cb_endDate march_body = Some e \<and>
          b_user b = 7 \<and> cb_category march_body = Some (b_category b) \<and>
          b_period b = cb_period march_body \<and> b_isActive b \<and>
          date_le (b_startDate b) e \<and> date_le s (b_endDate b))"
    by simp
  have msg: "create_budget 11 7 [cat_groceries]
        [new_budget 10 7 3 120 march_1 march_31 march_body] march_body =
      ((400, ''Budget already exists for this category and period''),
       snd (create_budget 11 7 [cat_groceries]
              [new_budget 10 7 3 120 march_1 march_31 march_body] march_body))"
    by (simp add: create_budget_def march_body_def cat_groceries_def new_budget_def
          overlaps_def date_le_def march_1_def march_31_def)
  note a = create_budget_outcomes
             [of 11 7 "[cat_groceries]" "[new_budget 10 7 3 120 march_1 march_31 march_body]"
                 march_body]
  note b = create_budget_outcomes [of 11 7 "[cat_groceries]" "[february_budget]" march_body]
  note c = create_budget_outcomes [of 11 7 "[cat_groceries]" "[]" march_body]
  from a same have "snd (create_budget 11 7 [cat_groceries]
        [new_budget 10 7 3 120 march_1 march_31 march_body] march_body) =
      [new_budget 10 7 3 120 march_1 march_31 march_body]"
    by blast
  with msg have first: "create_budget 11 7 [cat_groceries]
        [new_budget 10 7 3 120 march_1 march_31 march_body] march_body =
      ((400, ''Budget already exists for this category and period''),
       [new_budget 10 7 3 120 march_1 march_31 march_body])"
    by simp
  from b touch have second:
    "fst (fst (create_budget 11 7 [cat_groceries] [february_budget] march_body)) = 400"
    by blast
  from c valid cat none
  have "fst (fst (create_budget 11 7 [cat_groceries] [] march_body)) \<noteq> 400"
    by blast
  with c fields s have "create_budget 11 7 [cat_groceries] [] march_body =
      ((201, ''Budget created successfully''),
       [] @ [new_budget 11 7 3 120 march_1 march_31 march_body])"
    by blast
  with first second show ?thesis
    by (simp add: february_budget_def)
qed

section \<open>Transaction mutations and the category type\<close>

lemma create_transaction_keeps_match:
  assumes "list_all (category_matches categories) transactions"
  shows "list_all (category_matches categories)
           (snd (create_transaction now new_id user categories transactions body))"
proof (cases "find (\<lambda>c. c_id c = ct_category body \<and> c_user c = user \<and>
                         c_type c = ct_type body \<and> c_isActive c) categories")
  case None
  with assms show ?thesis by (simp add: create_transaction_def)
next
  case (Some categoryDoc)
  then have "categoryDoc \<in> set categories" and "c_id categoryDoc = ct_category body"
    and "c_user categoryDoc = user" and "c_type categoryDoc = ct_type body"
    by (auto simp: find_Some_iff)
  then have "category_matches categories
      \<lparr>t_id = new_id, t_user = user, t_type = ct_type body,
                  t_amount = ct_amount body, t_description = trim (ct_description body),
                  t_category = ct_category body,
                  t_date = (case ct_date body of Some d \<Rightarrow> d | None \<Rightarrow> now)\<rparr>"
    by (auto simp: category_matches_def list_ex_iff)
  with assms Some show ?thesis by (simp add: create_transaction_def)
qed

lemma update_with_category_keeps_match:
  assumes cat: "ut_category updates = Some cat" and usr: "ut_user updates = None"
    and found: "find (\<lambda>t. t_id t = tid \<and> t_user t = user) transactions = Some t"
    and ok: "fst (fst (update_transaction user tid categories transactions updates)) = 200"
  shows "category_matches categories (assign_transaction updates t)"
proof -
  define ty where "ty = (case ut_type updates of None \<Rightarrow> t_type t
                         | Some v \<Rightarrow> if v = [] then t_type t else v)"
  have valid: "case ut_type updates of None \<Rightarrow> True
                | Some v \<Rightarrow> v \<in> set [''income'', ''expense'']"
    using ok by (auto simp: update_transaction_def split: if_splits)
  have "find (\<lambda>c. c_id c = cat \<and> c_user c = user \<and> c_type c = ty \<and> c_isActive c) categories
          \<noteq> None"
    using ok cat found valid unfolding ty_def
    by (auto simp: update_transaction_def split: if_splits option.splits)
  then obtain c where c: "c \<in> set categories" "c_id c = cat" "c_user c = user" "c_type c = ty"
    by (auto simp: find_None_iff)
  have "t_type (assign_transaction updates t) = ty"
    using valid unfolding ty_def
    by (auto simp: assign_transaction_def split: option.splits)
  moreover have "t_user (assign_transaction updates t) = user"
    using usr found by (auto simp: assign_transaction_def find_Some_iff)
  moreover have "t_category (assign_transaction updates t) = cat"
    using cat by (simp add: assign_transaction_def)
  ultimately show ?thesis
    using c by (auto simp: category_matches_def list_ex_iff)
qed

text \<open>
  Claim C9: creating and updating a transaction keep the category of the transaction
  one of the same user and of the transaction's type; a request that would break this is
  rejected. The update route checks the category only when the body carries one: a body
  that carries only \<open>type = income\<close> is accepted for an expense in an expense category and
  leaves an income transaction in that expense category.
\<close>

theorem update_type_breaks_category_match:
  "list_all (category_matches [cat_groceries, cat_salary]) [tx_groceries] \<and>
   update_transaction 7 22 [cat_groceries, cat_salary] [tx_groceries] only_type =
     ((200, ''Transaction updated successfully''), [tx_groceries\<lparr>t_type := ''income''\<rparr>]) \<and>
   \<not> list_all (category_matches [cat_groceries, cat_salary])
       [tx_groceries\<lparr>t_type := ''income''\<rparr>]"
  by (simp add: update_transaction_def only_type_def tx_groceries_def cat_groceries_def
        cat_salary_def category_matches_def replace_first_def assign_transaction_def)

section \<open>Updating a budget\<close>

lemma assign_budget_guard:
  "assign_budget updates budget ''category'' = budget ''category'' \<and>
   assign_budget updates budget ''period'' = budget ''period''"
  unfolding assign_budget_def
  by (induction updates arbitrary: budget) (auto split: option.splits)

lemma assign_budget_frame:
  "k \<notin> fst ` set updates \<Longrightarrow> assign_budget updates budget k = budget k"
  unfolding assign_budget_def
  by (induction updates arbitrary: budget) (auto split: option.splits)

lemma assign_budget_Cons:
  "assign_budget ((key, v) # updates) budget =
   assign_budget updates
     (case v of None \<Rightarrow> budget
      | Some x \<Rightarrow> if key \<noteq> ''category'' \<and> key \<noteq> ''period'' then budget(key \<mapsto> x) else budget)"
  by (simp add: assign_budget_def)

lemma assign_budget_sets:
  "distinct (map fst updates) \<Longrightarrow> (k, Some x) \<in> set updates \<Longrightarrow> k \<noteq> ''category'' \<Longrightarrow>
   k \<noteq> ''period'' \<Longrightarrow> assign_budget updates budget k = Some x"
proof (induction updates arbitrary: budget)
  case Nil
  then show ?case by simp
next
  case (Cons u updates)
  obtain key v where u: "u = (key, v)" by (cases u)
  show ?case
  proof (cases "u = (k, Some x)")
    case True
    with Cons.prems have "k \<notin> fst ` set updates" by auto
    then have "assign_budget updates (budget(k \<mapsto> x)) k = (budget(k \<mapsto> x)) k"
      by (rule assign_budget_frame)
    with True Cons.prems show ?thesis by (simp add: assign_budget_Cons)
  next
    case False
    with Cons.prems have "distinct (map fst updates)" and "(k, Some x) \<in> set updates"
      by auto
    with Cons.IH Cons.prems(3,4) u show ?thesis by (simp add: assign_budget_Cons)
  qed
qed

lemma replace_first_all2:
  assumes "\<And>x. x \<in> set xs \<Longrightarrow> R x x"
    and "\<And>x. x \<in> set xs \<Longrightarrow> P x \<Longrightarrow> find P xs = Some x \<Longrightarrow> R x y"
  shows "list_all2 R xs (replace_first P y xs)"
  using assms
proof (induction xs)
  case Nil
  then show ?case by (simp add: replace_first_def)
next
  case (Cons a xs)
  show ?case
  proof (cases "P a")
    case True
    then have "replace_first P y (a # xs) = y # xs" by (simp add: replace_first_def)
    moreover have "R a y" using Cons.prems(2) [of a] True by simp
    moreover have "list_all2 R xs xs" using Cons.prems(1) by (simp add: list_all2_same)
    ultimately show ?thesis by simp
  next
    case False
    then have "replace_first P y (a # xs) = a # replace_first P y xs"
      by (simp add: replace_first_def)
    moreover have "list_all2 R xs (replace_first P y xs)"
    proof (rule Cons.IH)
      fix x assume "x \<in> set xs" then show "R x x" using Cons.prems(1) by simp
    next
      fix x assume "x \<in> set xs" "P x" "find P xs = Some x"
      then show "R x y" using Cons.prems(2) [of x] False by simp
    qed
    moreover have "R a a" using Cons.prems(1) by simp
    ultimately show ?thesis by simp
  qed
qed

text \<open>
  Claim C10: an update of an existing budget of the requester leaves the \<open>category\<close> and
  \<open>period\<close> of the budget as they were, whatever the body holds; only the other fields
  that the body supplies change. Whatever the answer, no stored budget changes its
  category, its period or a field the body does not name; an accepted update stores the
  assigned document, in which every other field the body supplies has the supplied
  value.
\<close>

theorem update_budget_keeps_category_and_period:
  assumes found: "find (\<lambda>d. d ''_id'' = Some bid \<and> d ''user'' = Some user) budgets = Some budget"
  shows
    "list_all2
       (\<lambda>old new. new ''category'' = old ''category'' \<and> new ''period'' = old ''period'' \<and>
                   (\<forall>k. k \<notin> fst ` set updates \<longrightarrow> new k = old k))
       budgets (snd (update_budget amount_ok save_ok user bid budgets updates)) \<and>
     ((case map_of updates ''amount'' of Some (Some v) \<Rightarrow> amount_ok v | _ \<Rightarrow> True) \<and>
      save_ok (assign_budget updates budget) \<longrightarrow>
        update_budget amount_ok save_ok user bid budgets updates =
          ((200, ''Budget updated successfully''),
           replace_first (\<lambda>d. d ''_id'' = Some bid \<and> d ''user'' = Some user)
             (assign_budget updates budget) budgets)) \<and>
     assign_budget updates budget ''category'' = budget ''category'' \<and>
     assign_budget updates budget ''period'' = budget ''period'' \<and>
     (\<forall>k x. distinct (map fst updates) \<and> (k, Some x) \<in> set updates \<and>
            k \<noteq> ''category'' \<and> k \<noteq> ''period'' \<longrightarrow>
            assign_budget updates budget k = Some x)"
proof -
  let ?R = "\<lambda>old new. new ''category'' = old ''category'' \<and> new ''period'' = old ''period'' \<and>
                   (\<forall>k. k \<notin> fst ` set updates \<longrightarrow> new k = old k)"
  let ?P = "\<lambda>d. d ''_id'' = Some bid \<and> d ''user'' = Some user"
  have same: "list_all2 ?R budgets budgets"
    by (simp add: list_all2_same)
  have repl: "list_all2 ?R budgets (replace_first ?P (assign_budget updates budget) budgets)"
  proof (rule replace_first_all2)
    fix x assume "x \<in> set budgets" then show "?R x x" by simp
  next
    fix x assume "find ?P budgets = Some x"
    with found have "x = budget" by simp
    then show "?R x (assign_budget updates budget)"
      using assign_budget_guard [of updates budget] assign_budget_frame [of _ updates budget]
      by simp
  qed
  have frame: "list_all2 ?R budgets
       (snd (update_budget amount_ok save_ok user bid budgets updates))"
    using same repl found by (simp add: update_budget_def)
  have ok: "(case map_of updates ''amount'' of Some (Some v) \<Rightarrow> amount_ok v | _ \<Rightarrow> True) \<and>
      save_ok (assign_budget updates budget) \<longrightarrow>
        update_budget amount_ok save_ok user bid budgets updates =
          ((200, ''Budget updated successfully''),
           replace_first ?P (assign_budget updates budget) budgets)"
    using found by (auto simp: update_budget_def split: option.splits)
  have sets: "\<forall>k x. distinct (map fst updates) \<and> (k, Some x) \<in> set updates \<and>
            k \<noteq> ''category'' \<and> k \<noteq> ''period'' \<longrightarrow>
            assign_budget updates budget k = Some x"
    using assign_budget_sets [of updates _ _ budget] by blast
  from frame ok sets assign_budget_guard [of updates budget] show ?thesis
    by blast
qed

theorem update_budget_keeps_category_and_period_witness:
  "fst (update_budget (\<lambda>v. v \<noteq> []) (\<lambda>d. True) ''u7'' ''b10'' [budget_doc] budget_patch) =
     (200, ''Budget updated successfully'') \<and>
   map (\<lambda>d. (d ''category'', d ''period'', d ''amount''))
     (snd (update_budget (\<lambda>v. v \<noteq> []) (\<lambda>d. True) ''u7'' ''b10'' [budget_doc] budget_patch)) =
     [(Some ''c3'', Some ''monthly'', Some ''150'')]"
proof -
  have found: "find (\<lambda>d. d ''_id'' = Some ''b10'' \<and> d ''user'' = Some ''u7'') [budget_doc] =
      Some budget_doc"
    by (simp add: budget_doc_def)
  have valid: "(case map_of budget_patch ''amount'' of Some (Some v) \<Rightarrow> v \<noteq> [] | _ \<Rightarrow> True) \<and> True"
    by (simp add: budget_patch_def)
  have d: "distinct (map fst budget_patch) \<and> (''amount'', Some ''150'') \<in> set budget_patch \<and>
     ''amount'' \<noteq> ''category'' \<and> ''amount'' \<noteq> ''period''"
    by (simp add: budget_patch_def)
  note c10 = update_budget_keeps_category_and_period [OF found, of budget_patch "\<lambda>v. v \<noteq> []" "\<lambda>d. True"]
  from c10 valid have r: "update_budget (\<lambda>v. v \<noteq> []) (\<lambda>d. True) ''u7'' ''b10'' [budget_doc] budget_patch =
          ((200, ''Budget updated successfully''),
           replace_first (\<lambda>d. d ''_id'' = Some ''b10'' \<and> d ''user'' = Some ''u7'')
             (assign_budget budget_patch budget_doc) [budget_doc])"
    by blast
  from c10 have g: "assign_budget budget_patch budget_doc ''category'' = budget_doc ''category'' \<and>
     assign_budget budget_patch budget_doc ''period'' = budget_doc ''period''"
    by blast
  from c10 d have a: "assign_budget budget_patch budget_doc ''amount'' = Some ''150''"
    by blast
  have "replace_first (\<lambda>d. d ''_id'' = Some ''b10'' \<and> d ''user'' = Some ''u7'')
             (assign_budget budget_patch budget_doc) [budget_doc] =
        [assign_budget budget_patch budget_doc]"
    by (simp add: replace_first_def budget_doc_def)
  with r g a show ?thesis
    by (simp add: budget_doc_def)
qed

end
